theory Spec2Isabelle
  imports Complex_Main "HOL-Library.Sublist" "HOL-Library.Char_ord" "HOL-Library.List_Lexorder"
    "HOL-Library.AList" "HOL-Library.Word"
begin

section \<open>Strings\<close>

text \<open>
  Python \<^verbatim>\<open>str\<close> values are modelled as \<^typ>\<open>string\<close>. The model is exact for ASCII text
  (MAC addresses, hex payloads, plugin identifiers); \<^verbatim>\<open>str.upper\<close> and \<^verbatim>\<open>str.lower\<close> map the
  26 ASCII letters and leave every other character alone.
\<close>

definition char_upper :: "char \<Rightarrow> char" where
  "char_upper c =
     (case map_of (zip ''abcdefghijklmnopqrstuvwxyz'' ''ABCDEFGHIJKLMNOPQRSTUVWXYZ'') c of
        Some u \<Rightarrow> u | None \<Rightarrow> c)"

definition char_lower :: "char \<Rightarrow> char" where
  "char_lower c =
     (case map_of (zip ''ABCDEFGHIJKLMNOPQRSTUVWXYZ'' ''abcdefghijklmnopqrstuvwxyz'') c of
        Some l \<Rightarrow> l | None \<Rightarrow> c)"

definition upper :: "string \<Rightarrow> string" where
  "upper s = map char_upper s"

definition lower :: "string \<Rightarrow> string" where
  "lower s = map char_lower s"

text \<open>\<^verbatim>\<open>s.startswith(p)\<close> and \<^verbatim>\<open>t in s\<close> on strings.\<close>

definition startswith :: "string \<Rightarrow> string \<Rightarrow> bool" where
  "startswith s p = prefix p s"

definition str_in :: "string \<Rightarrow> string \<Rightarrow> bool" where
  "str_in t s = sublist t s"

text \<open>\<^verbatim>\<open>sep.join(parts)\<close>.\<close>

fun join :: "string \<Rightarrow> string list \<Rightarrow> string" where
  "join sep [] = []"
| "join sep [x] = x"
| "join sep (x # y # ys) = x @ sep @ join sep (y # ys)"

section \<open>Dictionaries\<close>

text \<open>
  A Python \<^verbatim>\<open>dict\<close> keeps insertion order, and \<^verbatim>\<open>best_plugin_for_device\<close> depends on it, so
  a dictionary is an association list with one entry per key: assigning to a key that is
  present replaces the value in place, assigning to a new key appends the entry.
\<close>

type_synonym ('k, 'v) dict = "('k \<times> 'v) list"

definition dict_get :: "('k, 'v) dict \<Rightarrow> 'k \<Rightarrow> 'v option" where
  "dict_get d k = map_of d k"

definition dict_contains :: "('k, 'v) dict \<Rightarrow> 'k \<Rightarrow> bool" where
  "dict_contains d k = (map_of d k \<noteq> None)"

definition dict_set :: "('k, 'v) dict \<Rightarrow> 'k \<Rightarrow> 'v \<Rightarrow> ('k, 'v) dict" where
  "dict_set d k v = AList.update k v d"

definition dict_keys :: "('k, 'v) dict \<Rightarrow> 'k list" where
  "dict_keys d = map fst d"

definition dict_values :: "('k, 'v) dict \<Rightarrow> 'v list" where
  "dict_values d = map snd d"

section \<open>Data model (core/model.py)\<close>

type_synonym byte = "8 word"

record match_rules =
  name_contains :: "string list"
  mac_prefix :: "string list"

record transport_spec =
  transport_type :: string
  channel :: "int option"
  service_uuid :: "string option"
  write_char_uuid :: "string option"
  notify_char_uuid :: "string option"
  write_with_response :: bool
  timeout_s :: real

record enum_feature =
  feature_type :: string
  fvalues :: "(string, byte list) dict"

record plugin =
  plugin_id :: string
  plugin_name :: string
  plugin_match :: match_rules
  transport :: transport_spec
  features :: "(string, enum_feature) dict"

record detected_device =
  mac :: string
  name :: string

record resolved_target =
  device :: detected_device
  plugin :: plugin

record send_result =
  target :: resolved_target
  feature :: string
  fvalue :: string
  payload_hex :: string
  response_hex :: "string option"

section \<open>Errors (core/errors.py)\<close>

text \<open>
  Every exception class the modelled code raises, with its message. \<open>TypeError\<close>,
  \<open>ValueError\<close> and \<open>KeyError\<close> are the Python built-ins, which the repository's code never catches.
  \<open>YAMLError\<close> stands for the exceptions of PyYAML's own constructors.
\<close>

datatype error =
    PluginValidationError string
  | PluginLoadError string
  | DeviceSelectionError string
  | DeviceDiscoveryError string
  | FeatureResolutionError string
  | TransportError string
  | TypeError string
  | ValueError string
  | KeyError string
  | YAMLError string

section \<open>Device matching (core/device_match.py)\<close>

definition mac_prefix_match :: "string \<Rightarrow> plugin \<Rightarrow> bool" where
  "mac_prefix_match device_mac p =
     (let upper_mac = upper device_mac
      in list_ex (\<lambda>pre. startswith upper_mac pre) (mac_prefix (plugin_match p)))"

definition name_contains_match :: "string \<Rightarrow> plugin \<Rightarrow> bool" where
  "name_contains_match device_name p =
     (let lower_name = lower device_name
      in list_ex (\<lambda>token. str_in (lower token) lower_name) (name_contains (plugin_match p)))"

definition match_score :: "detected_device \<Rightarrow> plugin \<Rightarrow> int" where
  "match_score d p =
     (let mac_match = mac_prefix_match (mac d) p;
          name_match = name_contains_match (name d) p
      in if mac_match \<and> name_match then 3
         else if mac_match then 2
         else if name_match then 1
         else 0)"

text \<open>
  The loop of \<^verbatim>\<open>best_plugin_for_device\<close> over \<^verbatim>\<open>plugins.values()\<close>, with its two variables
  \<^verbatim>\<open>best\<close> and \<^verbatim>\<open>best_score\<close> as the accumulator.
\<close>

fun best_loop :: "detected_device \<Rightarrow> plugin list \<Rightarrow> plugin option \<times> int \<Rightarrow> plugin option \<times> int"
  where
  "best_loop d [] acc = acc"
| "best_loop d (p # ps) (best, best_score) =
     (let score = match_score d p
      in if score > best_score then best_loop d ps (Some p, score)
         else best_loop d ps (best, best_score))"

definition best_plugin_for_device :: "detected_device \<Rightarrow> (string, plugin) dict \<Rightarrow> plugin option"
  where
  "best_plugin_for_device d plugins = fst (best_loop d (dict_values plugins) (None, 0))"

section \<open>Service layer (core/service.py)\<close>

text \<open>
  \<open>truthy\<close> is the truth value Python gives an optional string in \<^verbatim>\<open>if plugin_id:\<close> and
  \<^verbatim>\<open>if device_hint:\<close>; \<open>quoted\<close> is the f-string fragment \<^verbatim>\<open>'{x}'\<close>.
\<close>

definition truthy :: "string option \<Rightarrow> bool" where
  "truthy s = (case s of None \<Rightarrow> False | Some x \<Rightarrow> x \<noteq> [])"

definition quoted :: "string \<Rightarrow> string" where
  "quoted s = [CHR 0x27] @ s @ [CHR 0x27]"

text \<open>\<^verbatim>\<open>bytes.hex()\<close>: two lower-case hexadecimal digits per byte.\<close>

definition hex_digit :: "nat \<Rightarrow> char" where
  "hex_digit n = ''0123456789abcdef'' ! (n mod 16)"

definition bytes_hex :: "byte list \<Rightarrow> string" where
  "bytes_hex bs = concat (map (\<lambda>b. [hex_digit (unat b div 16), hex_digit (unat b mod 16)]) bs)"

text \<open>
  The two transports are collaborators of the service: each is a function from the
  arguments of its \<^verbatim>\<open>send\<close> to an error or an optional response. A \<open>transport_call\<close>
  records one invocation of \<^verbatim>\<open>send\<close>, so that what an operation sent is part of its result.
\<close>

datatype transport_call =
    RfcommSend string "byte list" int real
  | BleSend string "byte list" string string "string option" bool real

record buds_service =
  plugins :: "(string, plugin) dict"
  rfcomm_transport :: "string \<Rightarrow> byte list \<Rightarrow> int \<Rightarrow> real \<Rightarrow> error + byte list option"
  ble_transport :: "string \<Rightarrow> byte list \<Rightarrow> string \<Rightarrow> string \<Rightarrow> string option \<Rightarrow> bool \<Rightarrow> real
                      \<Rightarrow> error + byte list option"

text \<open>
  The loop of \<^verbatim>\<open>resolve_target\<close> over the discovered devices: with an override the device
  is tested against the one-entry mapping \<^verbatim>\<open>{plugin.id: plugin}\<close>, without one against the
  whole mapping; a device with no match is skipped.
\<close>

fun match_devices :: "buds_service \<Rightarrow> plugin option \<Rightarrow> detected_device list \<Rightarrow> resolved_target list"
  where
  "match_devices svc plugin_override [] = []"
| "match_devices svc plugin_override (d # ds) =
     (case plugin_override of
        Some p \<Rightarrow>
          (if best_plugin_for_device d [(plugin_id p, p)] = None
           then match_devices svc plugin_override ds
           else \<lparr>device = d, plugin = p\<rparr> # match_devices svc plugin_override ds)
      | None \<Rightarrow>
          (case best_plugin_for_device d (plugins svc) of
             None \<Rightarrow> match_devices svc plugin_override ds
           | Some p \<Rightarrow> \<lparr>device = d, plugin = p\<rparr> # match_devices svc plugin_override ds))"

text \<open>The condition of the list comprehension that filters the candidates by the hint.\<close>

definition hint_matches :: "string \<Rightarrow> resolved_target \<Rightarrow> bool" where
  "hint_matches hint c =
     (lower (mac (device c)) = hint
      \<or> str_in hint (lower (mac (device c)))
      \<or> str_in hint (lower (name (device c)))
      \<or> str_in hint (lower (plugin_id (plugin c)))
      \<or> str_in hint (lower (plugin_name (plugin c))))"

definition candidate_desc :: "resolved_target \<Rightarrow> string" where
  "candidate_desc c = mac (device c) @ '' ('' @ name (device c) @ '')''"

text \<open>
  \<^verbatim>\<open>BudsService.resolve_target\<close>. The second argument is the outcome of
  \<^verbatim>\<open>self.list_devices()\<close>: the discovered devices, or the error discovery raised, which
  propagates.
\<close>

definition resolve_target ::
  "buds_service \<Rightarrow> error + detected_device list \<Rightarrow> string option \<Rightarrow> string option
     \<Rightarrow> error + resolved_target" where
  "resolve_target svc list_devices plugin_id_opt device_hint =
     (case list_devices of
        Inl e \<Rightarrow> Inl e
      | Inr devices \<Rightarrow>
          if devices = [] then
            Inl (DeviceSelectionError
                  ''No Bluetooth devices found. Ensure your target device is connected.'')
          else
            (case (case plugin_id_opt of
                     None \<Rightarrow> Inr None
                   | Some pid \<Rightarrow>
                       if pid = [] then Inr None
                       else (case dict_get (plugins svc) pid of
                               None \<Rightarrow>
                                 Inl (DeviceSelectionError
                                       (''Unknown plugin '' @ quoted pid
                                        @ ''. Use 'budsctl list' to inspect available plugins.''))
                             | Some p \<Rightarrow> Inr (Some p))) of
               Inl e \<Rightarrow> Inl e
             | Inr plugin_override \<Rightarrow>
                 (case (let candidates = match_devices svc plugin_override devices
                        in case device_hint of
                             None \<Rightarrow> Inr candidates
                           | Some h \<Rightarrow>
                               if h = [] then Inr candidates
                               else (let hint = lower h;
                                         hinted = filter (hint_matches hint) candidates
                                     in if hinted = []
                                        then Inl (DeviceSelectionError
                                                   (''No device found matching '' @ quoted h))
                                        else Inr hinted)) of
                    Inl e \<Rightarrow> Inl e
                  | Inr candidates \<Rightarrow>
                      if candidates = [] then
                        (case plugin_id_opt of
                           None \<Rightarrow>
                             Inl (DeviceSelectionError
                                   ''No connected device matched any plugin. Use --plugin to target explicitly or add a plugin.'')
                         | Some pid \<Rightarrow>
                             if pid = [] then
                               Inl (DeviceSelectionError
                                     ''No connected device matched any plugin. Use --plugin to target explicitly or add a plugin.'')
                             else
                               Inl (DeviceSelectionError
                                     (''No connected device matched plugin '' @ quoted pid @ ''.'')))
                      else if length candidates > 1 then
                        Inl (DeviceSelectionError
                              (''Multiple candidate devices found: ''
                               @ join '', '' (map candidate_desc candidates)
                               @ ''. Use --device to choose one.''))
                      else Inr (candidates ! 0))))"

text \<open>\<^verbatim>\<open>BudsService.feature_values\<close>.\<close>

definition feature_values ::
  "buds_service \<Rightarrow> error + detected_device list \<Rightarrow> string \<Rightarrow> string option \<Rightarrow> string option
     \<Rightarrow> error + resolved_target \<times> string list" where
  "feature_values svc list_devices feature_name plugin_id_opt device_hint =
     (case resolve_target svc list_devices plugin_id_opt device_hint of
        Inl e \<Rightarrow> Inl e
      | Inr tgt \<Rightarrow>
          (case dict_get (features (plugin tgt)) feature_name of
             None \<Rightarrow>
               (let available = join '', '' (sort (dict_keys (features (plugin tgt))))
                in Inl (FeatureResolutionError
                         (''Plugin '' @ quoted (plugin_id (plugin tgt))
                          @ '' does not define feature '' @ quoted feature_name
                          @ ''. Available: '' @ available)))
           | Some feature_spec \<Rightarrow> Inr (tgt, sort (dict_keys (fvalues feature_spec)))))"

text \<open>\<^verbatim>\<open>BudsService.feature_catalog\<close>.\<close>

definition feature_catalog ::
  "buds_service \<Rightarrow> error + detected_device list \<Rightarrow> string option \<Rightarrow> string option
     \<Rightarrow> error + resolved_target \<times> (string, string list) dict" where
  "feature_catalog svc list_devices plugin_id_opt device_hint =
     (case resolve_target svc list_devices plugin_id_opt device_hint of
        Inl e \<Rightarrow> Inl e
      | Inr tgt \<Rightarrow>
          Inr (tgt,
               fold (\<lambda>(feature_name, feature_spec) catalog.
                       dict_set catalog feature_name (sort (dict_keys (fvalues feature_spec))))
                    (sort_key fst (features (plugin tgt))) []))"

text \<open>
  The tail of \<^verbatim>\<open>set_feature\<close>: the transport's outcome becomes the \<^verbatim>\<open>SendResult\<close>;
  \<^verbatim>\<open>response.hex() if response else None\<close> maps an absent or empty response to \<^verbatim>\<open>None\<close>.
\<close>

definition send_outcome ::
  "resolved_target \<Rightarrow> string \<Rightarrow> string \<Rightarrow> byte list \<Rightarrow> error + byte list option
     \<Rightarrow> error + send_result" where
  "send_outcome tgt feature_name value_name payload sent =
     (case sent of
        Inl e \<Rightarrow> Inl e
      | Inr response \<Rightarrow>
          Inr \<lparr>target = tgt, feature = feature_name, fvalue = value_name,
               payload_hex = bytes_hex payload,
               response_hex = (case response of
                                 None \<Rightarrow> None
                               | Some r \<Rightarrow> if r = [] then None else Some (bytes_hex r))\<rparr>)"

text \<open>
  \<^verbatim>\<open>BudsService.set_feature\<close>. The result pairs the outcome with the calls made to the
  transports, in order.
\<close>

definition set_feature ::
  "buds_service \<Rightarrow> error + detected_device list \<Rightarrow> string \<Rightarrow> string \<Rightarrow> string option
     \<Rightarrow> string option \<Rightarrow> (error + send_result) \<times> transport_call list" where
  "set_feature svc list_devices feature_name value_name plugin_id_opt device_hint =
     (case feature_values svc list_devices feature_name plugin_id_opt device_hint of
        Inl e \<Rightarrow> (Inl e, [])
      | Inr (tgt, allowed_values) \<Rightarrow>
          (case dict_get (features (plugin tgt)) feature_name of
             None \<Rightarrow> (Inl (KeyError feature_name), [])
           | Some feature_spec \<Rightarrow>
               (case dict_get (fvalues feature_spec) value_name of
                  None \<Rightarrow>
                    (let allowed = join '', '' allowed_values
                     in (Inl (FeatureResolutionError
                               (''Feature '' @ quoted feature_name
                                @ '' does not support value '' @ quoted value_name
                                @ ''. Allowed: '' @ allowed)), []))
                | Some payload \<Rightarrow>
                    (let t = transport (plugin tgt); pid = plugin_id (plugin tgt);
                         dmac = mac (device tgt)
                     in if transport_type t = ''rfcomm'' then
                          (case channel t of
                             None \<Rightarrow>
                               (Inl (FeatureResolutionError
                                      (''Plugin '' @ quoted pid
                                       @ '' has invalid RFCOMM configuration (missing channel).'')),
                                [])
                           | Some ch \<Rightarrow>
                               (send_outcome tgt feature_name value_name payload
                                  (rfcomm_transport svc dmac payload ch (timeout_s t)),
                                [RfcommSend dmac payload ch (timeout_s t)]))
                        else if transport_type t = ''ble'' then
                          (if \<not> truthy (service_uuid t) \<or> \<not> truthy (write_char_uuid t) then
                             (Inl (FeatureResolutionError
                                    (''Plugin '' @ quoted pid
                                     @ '' has invalid BLE configuration (missing UUIDs).'')),
                              [])
                           else
                             (case (service_uuid t, write_char_uuid t) of
                                (Some su, Some wu) \<Rightarrow>
                                  (send_outcome tgt feature_name value_name payload
                                     (ble_transport svc dmac payload su wu (notify_char_uuid t)
                                        (write_with_response t) (timeout_s t)),
                                   [BleSend dmac payload su wu (notify_char_uuid t)
                                      (write_with_response t) (timeout_s t)])
                              | _ \<Rightarrow>
                                  (Inl (FeatureResolutionError
                                         (''Plugin '' @ quoted pid
                                          @ '' has invalid BLE configuration (missing UUIDs).'')),
                                   [])))
                        else
                          (Inl (FeatureResolutionError
                                 (''Unsupported transport type '' @ quoted (transport_type t)
                                  @ '' for plugin '' @ quoted pid @ ''.'')),
                           [])))))"

section \<open>Plugin loader (core/plugin_loader.py)\<close>

text \<open>
  \<^verbatim>\<open>str.strip()\<close> removes leading and trailing whitespace: the characters for which
  \<^verbatim>\<open>str.isspace\<close> holds, in ASCII the codes 9 to 13, 28 to 31 and 32.
  \<^verbatim>\<open>replace(" ", "")\<close> removes the space character only.
\<close>

definition is_space :: "char \<Rightarrow> bool" where
  "is_space c = (c \<in> set [CHR 0x09, CHR 0x0A, CHR 0x0B, CHR 0x0C, CHR 0x0D,
                          CHR 0x1C, CHR 0x1D, CHR 0x1E, CHR 0x1F, CHR 0x20])"

definition strip :: "string \<Rightarrow> string" where
  "strip s = rev (dropWhile is_space (rev (dropWhile is_space s)))"

definition remove_spaces :: "string \<Rightarrow> string" where
  "remove_spaces s = filter (\<lambda>c. c \<noteq> CHR '' '') s"

text \<open>
  \<^verbatim>\<open>_HEX_RE.match\<close> for the pattern \<^verbatim>\<open>^[0-9a-f]+$\<close>: one or more lower-case hexadecimal
  digits, where \<^verbatim>\<open>$\<close> also matches just before a final newline.
\<close>

definition is_hex_lower :: "char \<Rightarrow> bool" where
  "is_hex_lower c = (c \<in> set ''0123456789abcdef'')"

definition hex_re_match :: "string \<Rightarrow> bool" where
  "hex_re_match s =
     (let body = (if s \<noteq> [] \<and> last s = CHR 0x0A then butlast s else s)
      in body \<noteq> [] \<and> list_all is_hex_lower body)"

text \<open>
  \<^verbatim>\<open>bytes.fromhex\<close>: ASCII whitespace (codes 9 to 13 and 32) is skipped before each pair
  of hexadecimal digits, which may be of either case; anything else raises \<^verbatim>\<open>ValueError\<close>.
\<close>

definition c_isspace :: "char \<Rightarrow> bool" where
  "c_isspace c = (c \<in> set [CHR 0x09, CHR 0x0A, CHR 0x0B, CHR 0x0C, CHR 0x0D, CHR 0x20])"

definition digit_value :: "char \<Rightarrow> nat option" where
  "digit_value c =
     map_of (zip ''0123456789abcdefABCDEF''
                 [0, 1, 2, 3, 4, 5, 6, 7, 8, 9, 10, 11, 12, 13, 14, 15, 10, 11, 12, 13, 14, 15]) c"

fun fromhex :: "string \<Rightarrow> error + byte list" where
  "fromhex [] = Inr []"
| "fromhex [c] =
     (if c_isspace c then Inr []
      else Inl (ValueError ''non-hexadecimal number found in fromhex() arg''))"
| "fromhex (c1 # c2 # cs) =
     (if c_isspace c1 then fromhex (c2 # cs)
      else (case (digit_value c1, digit_value c2) of
              (Some hi, Some lo) \<Rightarrow>
                (case fromhex cs of
                   Inl e \<Rightarrow> Inl e
                 | Inr bs \<Rightarrow> Inr (of_nat (16 * hi + lo) # bs))
            | _ \<Rightarrow> Inl (ValueError ''non-hexadecimal number found in fromhex() arg'')))"

text \<open>\<^verbatim>\<open>_normalize_hex(value, context=...)\<close>.\<close>

definition max_payload_bytes :: nat where
  "max_payload_bytes = 512"

definition normalize_hex :: "string \<Rightarrow> string \<Rightarrow> error + byte list" where
  "normalize_hex v context =
     (let normalized = remove_spaces (lower (strip v))
      in if length normalized = 0 then
           Inl (PluginValidationError (context @ '' must not be empty''))
         else if length normalized mod 2 \<noteq> 0 then
           Inl (PluginValidationError (context @ '' must have even-length hex''))
         else if \<not> hex_re_match normalized then
           Inl (PluginValidationError (context @ '' must contain only [0-9a-f]''))
         else (case fromhex normalized of
                 Inl e \<Rightarrow> Inl e
               | Inr payload \<Rightarrow>
                   if length payload > max_payload_bytes then
                     Inl (PluginValidationError
                           (context @ '' exceeds max payload size 512 bytes''))
                   else Inr payload))"

text \<open>
  \<^verbatim>\<open>load_plugins\<close>. A plugin source is a packaged resource, known by its file name, or a
  file under a user plugin directory. The arguments \<open>packaged\<close> and \<open>user_paths\<close> are what
  \<^verbatim>\<open>_iter_packaged_plugin_paths()\<close> and \<^verbatim>\<open>_iter_user_plugin_paths()\<close> return; \<open>read_yaml\<close> and
  \<open>build_plugin\<close> stand for \<^verbatim>\<open>_read_yaml\<close> and \<^verbatim>\<open>_build_plugin\<close>, whose schema file is not
  part of the sources.
\<close>

datatype source = Packaged string | UserFile string

record loaded_plugins =
  lp_plugins :: "(string, plugin) dict"
  lp_warnings :: "string list"

text \<open>The first loop, over the packaged documents sorted by name.\<close>

fun load_packaged ::
  "(source \<Rightarrow> error + 'doc) \<Rightarrow> ('doc \<Rightarrow> source \<Rightarrow> error + plugin) \<Rightarrow> source list
     \<Rightarrow> (string, plugin) dict \<Rightarrow> error + (string, plugin) dict" where
  "load_packaged read_yaml build_plugin [] pmap = Inr pmap"
| "load_packaged read_yaml build_plugin (path # paths) pmap =
     (case read_yaml path of
        Inl e \<Rightarrow> Inl e
      | Inr doc \<Rightarrow>
          (case build_plugin doc path of
             Inl e \<Rightarrow> Inl e
           | Inr p \<Rightarrow>
               load_packaged read_yaml build_plugin paths (dict_set pmap (plugin_id p) p)))"

text \<open>The second loop, over the user documents, which also collects the warnings.\<close>

fun load_user ::
  "(source \<Rightarrow> error + 'doc) \<Rightarrow> ('doc \<Rightarrow> source \<Rightarrow> error + plugin) \<Rightarrow> source list
     \<Rightarrow> (string, plugin) dict \<times> string list \<Rightarrow> error + (string, plugin) dict \<times> string list"
  where
  "load_user read_yaml build_plugin [] acc = Inr acc"
| "load_user read_yaml build_plugin (path # paths) (pmap, warns) =
     (case read_yaml path of
        Inl e \<Rightarrow> Inl e
      | Inr doc \<Rightarrow>
          (case build_plugin doc path of
             Inl e \<Rightarrow> Inl e
           | Inr p \<Rightarrow>
               (if dict_contains pmap (plugin_id p) then
                  (let warning = ''User plugin '' @ quoted (plugin_id p)
                                 @ '' overrides packaged plugin''
                   in load_user read_yaml build_plugin paths
                        (dict_set pmap (plugin_id p) p, warns @ [warning]))
                else
                  load_user read_yaml build_plugin paths
                    (dict_set pmap (plugin_id p) p, warns))))"

definition load_plugins ::
  "(source \<Rightarrow> error + 'doc) \<Rightarrow> ('doc \<Rightarrow> source \<Rightarrow> error + plugin) \<Rightarrow> string list
     \<Rightarrow> string list \<Rightarrow> error + loaded_plugins" where
  "load_plugins read_yaml build_plugin packaged user_paths =
     (case load_packaged read_yaml build_plugin (map Packaged (sort_key (\<lambda>p. p) packaged)) [] of
        Inl e \<Rightarrow> Inl e
      | Inr pmap \<Rightarrow>
          (case load_user read_yaml build_plugin (map UserFile user_paths) (pmap, []) of
             Inl e \<Rightarrow> Inl e
           | Inr (pmap', warns) \<Rightarrow> Inr \<lparr>lp_plugins = pmap', lp_warnings = warns\<rparr>))"

text \<open>
  One assignment \<^verbatim>\<open>plugins[plugin.id] = plugin\<close> of the merge, for stating what the loops
  of \<^verbatim>\<open>load_plugins\<close> compute.
\<close>

definition merge_step :: "plugin \<Rightarrow> (string, plugin) dict \<Rightarrow> (string, plugin) dict" where
  "merge_step p pmap = dict_set pmap (plugin_id p) p"

text \<open>The warnings of the user loop, started from a mapping whose keys are \<open>seen\<close>.\<close>

definition user_warnings :: "string list \<Rightarrow> plugin list \<Rightarrow> string list" where
  "user_warnings seen us =
     map (\<lambda>i. ''User plugin '' @ quoted (plugin_id (us ! i)) @ '' overrides packaged plugin'')
       (filter (\<lambda>i. plugin_id (us ! i) \<in> set (seen @ map plugin_id (take i us)))
          [0..<length us])"

section \<open>Device discovery (core/service.py)\<close>

text \<open>
  \<^verbatim>\<open>_run_discovery_command\<close> runs an external program; its outcome for a command line is an
  input of the model: \<open>None\<close> when the program is not installed (\<^verbatim>\<open>FileNotFoundError\<close>),
  otherwise the completed process with its return code and captured text.
\<close>

record completed_process =
  returncode :: int
  stdout :: string
  stderr :: string

type_synonym runner = "string list \<Rightarrow> completed_process option"

text \<open>
  \<^verbatim>\<open>str.splitlines()\<close>: a line ends at \<^verbatim>\<open>\n\<close>, \<^verbatim>\<open>\r\<close>, \<^verbatim>\<open>\r\n\<close>, \<^verbatim>\<open>\v\<close>, \<^verbatim>\<open>\f\<close> or one of
  the separators with codes 28 to 30; the line ends are dropped and no empty last line is
  produced.
\<close>

definition is_linebreak :: "char \<Rightarrow> bool" where
  "is_linebreak c = (c \<in> set [CHR 0x0A, CHR 0x0D, CHR 0x0B, CHR 0x0C, CHR 0x1C, CHR 0x1D, CHR 0x1E])"

fun splitlines_from :: "string \<Rightarrow> string \<Rightarrow> string list" where
  "splitlines_from cur [] = (if cur = [] then [] else [cur])"
| "splitlines_from cur [c] = (if is_linebreak c then [cur] else [cur @ [c]])"
| "splitlines_from cur (c # d # cs) =
     (if c = CHR 0x0D \<and> d = CHR 0x0A then cur # splitlines_from [] cs
      else if is_linebreak c then cur # splitlines_from [] (d # cs)
      else splitlines_from (cur @ [c]) (d # cs))"

definition splitlines :: "string \<Rightarrow> string list" where
  "splitlines s = splitlines_from [] s"

text \<open>
  \<^verbatim>\<open>_DEVICE_LINE_RE.match(line.strip())\<close> for the pattern
  \<^verbatim>\<open>^Device\s+([0-9A-F:]{17})\s+(.+)$\<close>, case-insensitive: the word, whitespace, seventeen
  characters that are hexadecimal digits or colons, whitespace, and a non-empty rest without
  a newline. The result is \<^verbatim>\<open>(match.group(1).upper(), match.group(2).strip())\<close>.
\<close>

definition is_hexdigit :: "char \<Rightarrow> bool" where
  "is_hexdigit c = (c \<in> set ''0123456789abcdefABCDEF'')"

definition parse_device_line :: "string \<Rightarrow> (string \<times> string) option" where
  "parse_device_line line =
     (let s = strip line;
          after_word = drop 6 s;
          at_mac = dropWhile is_space after_word;
          group1 = take 17 at_mac;
          after_mac = drop 17 at_mac;
          group2 = dropWhile is_space after_mac
      in if lower (take 6 s) = ''device''
            \<and> at_mac \<noteq> after_word
            \<and> length group1 = 17 \<and> list_all (\<lambda>c. is_hexdigit c \<or> c = CHR '':'') group1
            \<and> group2 \<noteq> after_mac
            \<and> group2 \<noteq> [] \<and> CHR 0x0A \<notin> set group2
         then Some (upper group1, strip group2)
         else None)"

text \<open>
  \<^verbatim>\<open>_MAC_RE.search(line)\<close> for the pattern \<^verbatim>\<open>([0-9A-F]{2}(?::[0-9A-F]{2}){5})\<close>,
  case-insensitive: the first place in the line where six pairs of hexadecimal digits,
  separated by colons, begin. In the template an \<^verbatim>\<open>h\<close> stands for a hexadecimal digit.
\<close>

fun matches_template :: "string \<Rightarrow> string \<Rightarrow> bool" where
  "matches_template [] s = True"
| "matches_template (t # ts) [] = False"
| "matches_template (t # ts) (c # cs) =
     ((if t = CHR ''h'' then is_hexdigit c else c = t) \<and> matches_template ts cs)"

fun mac_search :: "string \<Rightarrow> string option" where
  "mac_search [] = None"
| "mac_search (c # cs) =
     (if matches_template ''hh:hh:hh:hh:hh:hh'' (c # cs) then Some (take 17 (c # cs))
      else mac_search cs)"

definition parse_mac_line :: "string \<Rightarrow> (string \<times> string) option" where
  "parse_mac_line line =
     (case mac_search line of
        None \<Rightarrow> None
      | Some group1 \<Rightarrow> Some (upper group1, ''<unknown-device>''))"

text \<open>
  The loop over the lines of one command's output, with the variables \<^verbatim>\<open>seen\<close> and
  \<^verbatim>\<open>devices\<close> as its state; \<open>parse\<close> is the line matcher of the loop at hand.
\<close>

fun scan_lines ::
  "(string \<Rightarrow> (string \<times> string) option) \<Rightarrow> string list
     \<Rightarrow> string list \<times> detected_device list \<Rightarrow> string list \<times> detected_device list" where
  "scan_lines parse [] acc = acc"
| "scan_lines parse (line # lines) (seen, devices) =
     (case parse line of
        None \<Rightarrow> scan_lines parse lines (seen, devices)
      | Some (dmac, dname) \<Rightarrow>
          if dmac \<in> set seen then scan_lines parse lines (seen, devices)
          else scan_lines parse lines (seen @ [dmac], devices @ [\<lparr>mac = dmac, name = dname\<rparr>]))"

text \<open>
  The loop over a list of commands, with \<^verbatim>\<open>seen\<close>, \<^verbatim>\<open>devices\<close> and \<^verbatim>\<open>command_errors\<close> as
  its state.
\<close>

fun run_commands ::
  "runner \<Rightarrow> (string \<Rightarrow> (string \<times> string) option) \<Rightarrow> string list list
     \<Rightarrow> string list \<times> detected_device list \<times> string list
     \<Rightarrow> string list \<times> detected_device list \<times> string list" where
  "run_commands run parse [] st = st"
| "run_commands run parse (cmd # cmds) (seen, devices, command_errors) =
     (case run cmd of
        None \<Rightarrow> run_commands run parse cmds (seen, devices, command_errors)
      | Some result \<Rightarrow>
          if returncode result \<noteq> 0 then
            (let err = strip (stderr result)
             in if err \<noteq> [] then
                  run_commands run parse cmds
                    (seen, devices, command_errors @ [join '' '' cmd @ '' -> '' @ err])
                else run_commands run parse cmds (seen, devices, command_errors))
          else
            (case scan_lines parse (splitlines (stdout result)) (seen, devices) of
               (seen', devices') \<Rightarrow>
                 run_commands run parse cmds (seen', devices', command_errors)))"

definition bluetoothctl_commands :: "string list list" where
  "bluetoothctl_commands =
     [[''bluetoothctl'', ''devices'', ''Connected''],
      [''bluetoothctl'', ''devices''],
      [''bluetoothctl'', ''paired-devices'']]"

definition fallback_commands :: "string list list" where
  "fallback_commands = [[''hcitool'', ''con'']]"

text \<open>\<^verbatim>\<open>_discover_devices\<close>.\<close>

definition discover_devices :: "runner \<Rightarrow> error + detected_device list" where
  "discover_devices run =
     (case run_commands run parse_device_line bluetoothctl_commands ([], [], []) of
        (seen, devices, command_errors) \<Rightarrow>
          if devices \<noteq> [] then Inr devices
          else
            (case run_commands run parse_mac_line fallback_commands
                    (seen, devices, command_errors) of
               (seen', devices', command_errors') \<Rightarrow>
                 if devices' \<noteq> [] then Inr devices'
                 else if command_errors' \<noteq> [] then
                   Inl (DeviceDiscoveryError
                         (''Bluetooth discovery failed. Ensure a working D-Bus/BlueZ session. Details: ''
                          @ join '' | '' command_errors'))
                 else Inr devices'))"

text \<open>
  Two observations on a run, for stating the outcome of discovery: a command \<open>yields\<close> when
  it returns code 0 and a line of its output parses to a device; it \<open>reports_error\<close> when
  it returns a non-zero code with error output that is not blank.
\<close>

definition yields :: "runner \<Rightarrow> (string \<Rightarrow> (string \<times> string) option) \<Rightarrow> string list \<Rightarrow> bool" where
  "yields run parse cmd =
     (case run cmd of
        None \<Rightarrow> False
      | Some result \<Rightarrow>
          returncode result = 0 \<and> list_ex (\<lambda>line. parse line \<noteq> None) (splitlines (stdout result)))"

definition reports_error :: "runner \<Rightarrow> string list \<Rightarrow> bool" where
  "reports_error run cmd =
     (case run cmd of
        None \<Rightarrow> False
      | Some result \<Rightarrow> returncode result \<noteq> 0 \<and> strip (stderr result) \<noteq> [])"

section \<open>YAML loading with UniqueKeyLoader (core/plugin_loader.py)\<close>


























section \<open>Statements of the specification, as worded\<close>

text \<open>
  The hint filter as the specification words it: the lower-cased hint is compared with the
  candidate's MAC, device name, plugin id and plugin name as they are.
\<close>

definition hint_survives_as_stated :: "string \<Rightarrow> resolved_target \<Rightarrow> bool" where
  "hint_survives_as_stated h c =
     (let hint = lower h
      in hint = mac (device c)
         \<or> str_in hint (mac (device c))
         \<or> str_in hint (name (device c))
         \<or> str_in hint (plugin_id (plugin c))
         \<or> str_in hint (plugin_name (plugin c)))"

text \<open>
  Acceptance of a hex payload as the specification words it: lower-case the string, remove
  its whitespace, and require a non-empty, even-length string of hexadecimal digits that
  decodes to at most 512 bytes.
\<close>

definition hex_payload_accepted_as_stated :: "string \<Rightarrow> bool" where
  "hex_payload_accepted_as_stated v =
     (let n = filter (\<lambda>c. \<not> is_space c) (lower v)
      in n \<noteq> [] \<and> even (length n) \<and> list_all is_hex_lower n \<and> length n div 2 \<le> 512)"

text \<open>
  The decoding the specification asks for: each pair of hexadecimal digits is one byte, the
  first digit the high half. \<open>hex_val\<close> is the position of a digit in \<^verbatim>\<open>0123456789abcdef\<close>.
\<close>

definition hex_val :: "char \<Rightarrow> nat" where
  "hex_val c = length (takeWhile (\<lambda>d. d \<noteq> c) ''0123456789abcdef'')"

fun decode_hex :: "string \<Rightarrow> byte list" where
  "decode_hex (a # b # cs) = of_nat (16 * hex_val a + hex_val b) # decode_hex cs"
| "decode_hex [a] = []"
| "decode_hex [] = []"

text \<open>
  The warnings of the merge as the specification words them: one warning for every document
  of the folded sequence, bundled or user, whose id is already present.
\<close>

definition merge_warnings_as_stated :: "plugin list \<Rightarrow> string list" where
  "merge_warnings_as_stated docs =
     map (\<lambda>i. ''User plugin '' @ quoted (plugin_id (docs ! i)) @ '' overrides packaged plugin'')
       (filter (\<lambda>i. plugin_id (docs ! i) \<in> set (map plugin_id (take i docs)))
          [0..<length docs])"

text \<open>
  The condition under which discovery may fail, as the specification words it: every
  discovery mechanism errored out (could not be run, or returned a non-zero code), so that
  none succeeded.
\<close>

definition every_mechanism_errored :: "runner \<Rightarrow> bool" where
  "every_mechanism_errored run =
     list_all (\<lambda>cmd. case run cmd of None \<Rightarrow> True | Some result \<Rightarrow> returncode result \<noteq> 0)
       (bluetoothctl_commands @ fallback_commands)"


section \<open>Fixtures for the examples\<close>

text \<open>The plugin builder, device and plugins of tests/test_device_match.py.\<close>

definition test_plugin :: "string \<Rightarrow> string list \<Rightarrow> string list \<Rightarrow> plugin" where
  "test_plugin pid name_tokens mac_prefixes =
     \<lparr>plugin_id = pid, plugin_name = pid,
      plugin_match = \<lparr>name_contains = name_tokens, mac_prefix = mac_prefixes\<rparr>,
      transport = \<lparr>transport_type = ''rfcomm'', channel = Some 15, service_uuid = None,
                   write_char_uuid = None, notify_char_uuid = None,
                   write_with_response = True, timeout_s = 5\<rparr>,
      features = [(''anc'', \<lparr>feature_type = ''enum'', fvalues = [(''on'', [0xAA, 0x00])]\<rparr>)]\<rparr>"

definition generic_earbuds :: detected_device where
  "generic_earbuds = \<lparr>mac = ''88:92:CC:00:11:22'', name = ''Generic Earbuds''\<rparr>"

definition name_plugin :: plugin where
  "name_plugin = test_plugin ''name'' [''Generic''] [''AA:BB:CC'']"

definition mac_plugin :: plugin where
  "mac_plugin = test_plugin ''mac'' [''Other''] [''88:92:CC'']"

text \<open>
  The BLE plugin of \<^verbatim>\<open>test_ble_plugin_loads\<close> and \<^verbatim>\<open>test_set_feature_ble_transport\<close>, two devices
  carrying its MAC prefix, and the fake transports of tests/test_service_set_feature.py.
\<close>

definition my_ble_buds :: plugin where
  "my_ble_buds =
     \<lparr>plugin_id = ''my_ble_buds'', plugin_name = ''My BLE Buds'',
      plugin_match = \<lparr>name_contains = [''My BLE Buds''], mac_prefix = [''AA:BB:CC'']\<rparr>,
      transport = \<lparr>transport_type = ''ble'', channel = None,
                   service_uuid = Some ''0000180f-0000-1000-8000-00805f9b34fb'',
                   write_char_uuid = Some ''00002a19-0000-1000-8000-00805f9b34fb'',
                   notify_char_uuid = Some ''00002a1a-0000-1000-8000-00805f9b34fb'',
                   write_with_response = False, timeout_s = 5 / 2\<rparr>,
      features = [(''game_mode'', \<lparr>feature_type = ''enum'', fvalues = [(''on'', [0xAA, 0x01]), (''off'', [0xAA, 0x00])]\<rparr>)]\<rparr>"

definition ble_device :: detected_device where
  "ble_device = \<lparr>mac = ''AA:BB:CC:11:22:33'', name = ''My BLE Buds''\<rparr>"

definition ble_device2 :: detected_device where
  "ble_device2 = \<lparr>mac = ''AA:BB:CC:44:55:66'', name = ''My BLE Buds''\<rparr>"

definition fake_transport :: "string \<Rightarrow> byte list \<Rightarrow> int \<Rightarrow> real \<Rightarrow> error + byte list option" where
  "fake_transport dmac payload ch t = Inr (Some [0xBE, 0xEF])"

definition fake_ble_transport ::
  "string \<Rightarrow> byte list \<Rightarrow> string \<Rightarrow> string \<Rightarrow> string option \<Rightarrow> bool \<Rightarrow> real \<Rightarrow> error + byte list option"
  where
  "fake_ble_transport dmac payload su wu nu wr t = Inr (Some [0xCA, 0xFE])"

definition test_service :: buds_service where
  "test_service = \<lparr>plugins = [(''my_ble_buds'', my_ble_buds)],
                    rfcomm_transport = fake_transport, ble_transport = fake_ble_transport\<rparr>"

text \<open>
  A reader and a builder for the examples: the document of a source is its file name, and
  every document builds the plugin \<^verbatim>\<open>dup\<close>, which carries that file name as its display name.
\<close>

definition source_name :: "source \<Rightarrow> string" where
  "source_name s = (case s of Packaged n \<Rightarrow> n | UserFile n \<Rightarrow> n)"

definition fixture_read :: "source \<Rightarrow> error + string" where
  "fixture_read s = Inr (source_name s)"

definition fixture_build :: "string \<Rightarrow> source \<Rightarrow> error + plugin" where
  "fixture_build doc s = Inr ((test_plugin ''dup'' [''Dup''] [''AA:BB:CC''])\<lparr>plugin_name := doc\<rparr>)"

text \<open>
  Runners for the examples: \<^verbatim>\<open>fake_run\<close> of \<^verbatim>\<open>test_discovery_falls_back_to_hcitool\<close>, where
  \<^verbatim>\<open>bluetoothctl\<close> crashes and \<^verbatim>\<open>hcitool con\<close> lists one connection; and a runner where only
  \<^verbatim>\<open>bluetoothctl devices Connected\<close> fails and every other command succeeds with no output.
\<close>

definition fallback_run :: runner where
  "fallback_run cmd =
     (if take 1 cmd = [''bluetoothctl''] then
        Some \<lparr>returncode = - 6, stdout = [], stderr = ''dbus crashed''\<rparr>
      else
        Some \<lparr>returncode = 0,
               stdout = ''Connections:'' @ [CHR 0x0A, CHR 0x09]
                        @ ''< ACL 88:92:CC:11:22:33 handle 42 state 1 lm MASTER'' @ [CHR 0x0A],
               stderr = []\<rparr>)"

definition one_failure_run :: runner where
  "one_failure_run cmd =
     (if cmd = [''bluetoothctl'', ''devices'', ''Connected''] then
        Some \<lparr>returncode = 1, stdout = [], stderr = ''Too many arguments''\<rparr>
      else Some \<lparr>returncode = 0, stdout = [], stderr = []\<rparr>)"

definition quiet_run :: runner where
  "quiet_run cmd = Some \<lparr>returncode = 0, stdout = [], stderr = []\<rparr>"



















section \<open>Properties of device matching\<close>

text \<open>
  C1. The score of a device against a plugin is 3 exactly when the upper-cased MAC starts
  with one of the plugin's MAC prefixes and one of its name tokens occurs, compared in
  lower case, inside the device name; 2 exactly when only the MAC condition holds; 1 exactly
  when only the name condition holds; 0 exactly when neither holds.
\<close>

theorem match_score_iff:
  fixes d :: detected_device and p :: plugin
  defines "mac_hit \<equiv> \<exists>pre \<in> set (mac_prefix (plugin_match p)). prefix pre (upper (mac d))"
    and "name_hit \<equiv> \<exists>tok \<in> set (name_contains (plugin_match p)).
                       sublist (lower tok) (lower (name d))"
  shows "(match_score d p = 3 \<longleftrightarrow> mac_hit \<and> name_hit)
       \<and> (match_score d p = 2 \<longleftrightarrow> mac_hit \<and> \<not> name_hit)
       \<and> (match_score d p = 1 \<longleftrightarrow> \<not> mac_hit \<and> name_hit)
       \<and> (match_score d p = 0 \<longleftrightarrow> \<not> mac_hit \<and> \<not> name_hit)"
  unfolding mac_hit_def name_hit_def
  by (simp add: match_score_def mac_prefix_match_def name_contains_match_def Let_def
        startswith_def str_in_def list_ex_iff)

lemma match_score_nonneg: "0 \<le> match_score d p"
  by (simp add: match_score_def Let_def)

lemma best_loop_cases:
  "best_loop d ps (b, s) = (b', s') \<Longrightarrow>
     (b' = b \<and> s' = s \<and> (\<forall>p \<in> set ps. match_score d p \<le> s))
   \<or> (\<exists>i < length ps. b' = Some (ps ! i) \<and> s' = match_score d (ps ! i) \<and> s < s'
          \<and> (\<forall>j < length ps. match_score d (ps ! j) \<le> s')
          \<and> (\<forall>j < i. match_score d (ps ! j) < s'))"
proof (induction ps arbitrary: b s)
  case Nil
  then show ?case by simp
next
  case (Cons p ps)
  show ?case
  proof (cases "match_score d p > s")
    case True
    with Cons.prems have run: "best_loop d ps (Some p, match_score d p) = (b', s')"
      by (simp add: Let_def)
    from Cons.IH[OF run] show ?thesis
    proof
      assume keep: "b' = Some p \<and> s' = match_score d p \<and> (\<forall>q \<in> set ps. match_score d q \<le> match_score d p)"
      have "0 < length (p # ps) \<and> b' = Some ((p # ps) ! 0) \<and> s' = match_score d ((p # ps) ! 0) \<and> s < s'
          \<and> (\<forall>j < length (p # ps). match_score d ((p # ps) ! j) \<le> s')
          \<and> (\<forall>j < 0. match_score d ((p # ps) ! j) < s')"
        using keep True by (auto simp: nth_Cons split: nat.splits)
      then show ?thesis by blast
    next
      assume "\<exists>i < length ps. b' = Some (ps ! i) \<and> s' = match_score d (ps ! i) \<and> match_score d p < s'
          \<and> (\<forall>j < length ps. match_score d (ps ! j) \<le> s')
          \<and> (\<forall>j < i. match_score d (ps ! j) < s')"
      then obtain i where i: "i < length ps" "b' = Some (ps ! i)" "s' = match_score d (ps ! i)"
          "match_score d p < s'" "\<forall>j < length ps. match_score d (ps ! j) \<le> s'"
          "\<forall>j < i. match_score d (ps ! j) < s'"
        by blast
      have "Suc i < length (p # ps) \<and> b' = Some ((p # ps) ! Suc i) \<and> s' = match_score d ((p # ps) ! Suc i) \<and> s < s'
          \<and> (\<forall>j < length (p # ps). match_score d ((p # ps) ! j) \<le> s')
          \<and> (\<forall>j < Suc i. match_score d ((p # ps) ! j) < s')"
        using i True by (auto simp: nth_Cons split: nat.splits)
      then show ?thesis by blast
    qed
  next
    case False
    with Cons.prems have run: "best_loop d ps (b, s) = (b', s')"
      by (simp add: Let_def)
    from Cons.IH[OF run] show ?thesis
    proof
      assume "b' = b \<and> s' = s \<and> (\<forall>q \<in> set ps. match_score d q \<le> s)"
      then show ?thesis using False by auto
    next
      assume "\<exists>i < length ps. b' = Some (ps ! i) \<and> s' = match_score d (ps ! i) \<and> s < s'
          \<and> (\<forall>j < length ps. match_score d (ps ! j) \<le> s')
          \<and> (\<forall>j < i. match_score d (ps ! j) < s')"
      then obtain i where i: "i < length ps" "b' = Some (ps ! i)" "s' = match_score d (ps ! i)"
          "s < s'" "\<forall>j < length ps. match_score d (ps ! j) \<le> s'"
          "\<forall>j < i. match_score d (ps ! j) < s'"
        by blast
      have "Suc i < length (p # ps) \<and> b' = Some ((p # ps) ! Suc i) \<and> s' = match_score d ((p # ps) ! Suc i) \<and> s < s'
          \<and> (\<forall>j < length (p # ps). match_score d ((p # ps) ! j) \<le> s')
          \<and> (\<forall>j < Suc i. match_score d ((p # ps) ! j) < s')"
        using i False by (auto simp: nth_Cons split: nat.splits)
      then show ?thesis by blast
    qed
  qed
qed

lemma best_plugin_None_iff:
  "best_plugin_for_device d pmap = None \<longleftrightarrow> (\<forall>p \<in> set (dict_values pmap). match_score d p = 0)"
proof -
  obtain b' s' where run: "best_loop d (dict_values pmap) (None, 0) = (b', s')"
    by (cases "best_loop d (dict_values pmap) (None, 0)") auto
  from best_loop_cases[OF run] show ?thesis
  proof
    assume "b' = None \<and> s' = 0 \<and> (\<forall>p \<in> set (dict_values pmap). match_score d p \<le> 0)"
    then show ?thesis
      using run match_score_nonneg[of d] by (auto simp: best_plugin_for_device_def order.antisym)
  next
    assume "\<exists>i < length (dict_values pmap). b' = Some (dict_values pmap ! i) \<and> s' = match_score d (dict_values pmap ! i) \<and> 0 < s'
          \<and> (\<forall>j < length (dict_values pmap). match_score d (dict_values pmap ! j) \<le> s')
          \<and> (\<forall>j < i. match_score d (dict_values pmap ! j) < s')"
    then obtain i where i: "i < length (dict_values pmap)" "b' = Some (dict_values pmap ! i)"
       "0 < match_score d (dict_values pmap ! i)" by blast
    have "dict_values pmap ! i \<in> set (dict_values pmap)"
      using i(1) by (rule nth_mem)
    with i(3) have "\<not> (\<forall>p \<in> set (dict_values pmap). match_score d p = 0)"
      by force
    moreover have "best_plugin_for_device d pmap \<noteq> None"
      using run i(2) by (simp add: best_plugin_for_device_def)
    ultimately show ?thesis by blast
  qed
qed

lemma best_plugin_Some:
  assumes "best_plugin_for_device d pmap = Some b"
  shows "0 < match_score d b \<and>
     (\<exists>i < length (dict_values pmap). dict_values pmap ! i = b
        \<and> (\<forall>j < length (dict_values pmap). match_score d (dict_values pmap ! j) \<le> match_score d b)
        \<and> (\<forall>j < i. match_score d (dict_values pmap ! j) < match_score d b))"
proof -
  obtain b' s' where run: "best_loop d (dict_values pmap) (None, 0) = (b', s')"
    by (cases "best_loop d (dict_values pmap) (None, 0)") auto
  with assms have b': "b' = Some b" by (simp add: best_plugin_for_device_def)
  from best_loop_cases[OF run] b' show ?thesis by auto
qed

text \<open>
  C2. \<^verbatim>\<open>best_plugin_for_device\<close> returns nothing exactly when every plugin of the mapping
  scores 0. Otherwise it returns a plugin of the mapping with a positive score that no other
  plugin exceeds, and every plugin before it in iteration order scores strictly less: the
  first of the plugins tied at the maximum wins. A plugin scoring 2 beats a plugin scoring 1
  in either order.
\<close>

theorem best_plugin_for_device_spec:
  fixes d :: detected_device and pmap :: "(string, plugin) dict"
  defines "vs \<equiv> dict_values pmap"
  shows "(best_plugin_for_device d pmap = None \<longleftrightarrow> (\<forall>p \<in> set vs. match_score d p = 0))
       \<and> (\<forall>b. best_plugin_for_device d pmap = Some b \<longrightarrow>
             0 < match_score d b
           \<and> (\<exists>i < length vs. vs ! i = b
                \<and> (\<forall>j < length vs. match_score d (vs ! j) \<le> match_score d b)
                \<and> (\<forall>j < i. match_score d (vs ! j) < match_score d b)))
       \<and> (\<forall>k1 k2 p q. match_score d p = 2 \<and> match_score d q = 1 \<longrightarrow>
             best_plugin_for_device d [(k1, p), (k2, q)] = Some p
           \<and> best_plugin_for_device d [(k2, q), (k1, p)] = Some p)"
proof -
  have two: "best_plugin_for_device d [(k1, p), (k2, q)] = Some p
           \<and> best_plugin_for_device d [(k2, q), (k1, p)] = Some p"
    if "match_score d p = 2 \<and> match_score d q = 1" for k1 k2 :: string and p q
    using that by (simp add: best_plugin_for_device_def dict_values_def)
  show ?thesis
    unfolding vs_def using best_plugin_None_iff[of d pmap] best_plugin_Some[of d pmap] two
    by blast
qed

lemma score_name: "match_score generic_earbuds name_plugin = 1"
  by (simp add: match_score_def mac_prefix_match_def name_contains_match_def generic_earbuds_def name_plugin_def test_plugin_def
     upper_def lower_def char_upper_def char_lower_def startswith_def str_in_def sublist_Cons_right)

lemma score_mac: "match_score generic_earbuds mac_plugin = 2"
  by (simp add: match_score_def mac_prefix_match_def name_contains_match_def generic_earbuds_def mac_plugin_def test_plugin_def
     upper_def lower_def char_upper_def char_lower_def startswith_def str_in_def sublist_Cons_right)

theorem best_plugin_for_device_spec_witness:
  "best_plugin_for_device generic_earbuds [(''name'', name_plugin), (''mac'', mac_plugin)] = Some mac_plugin
   \<and> best_plugin_for_device generic_earbuds [(''mac'', mac_plugin), (''name'', name_plugin)] = Some mac_plugin
   \<and> 0 < match_score generic_earbuds mac_plugin
   \<and> best_plugin_for_device generic_earbuds [(''name'', name_plugin)] \<noteq> None"
  using best_plugin_for_device_spec[of generic_earbuds "[(''name'', name_plugin)]"]
        best_plugin_for_device_spec[of generic_earbuds "[(''name'', name_plugin), (''mac'', mac_plugin)]"]
        score_name score_mac
  by (simp add: dict_values_def)

section \<open>Properties of the service layer\<close>

lemma best_single:
  "best_plugin_for_device d [(k, p)] = None \<longleftrightarrow> \<not> 0 < match_score d p"
  using match_score_nonneg[of d p]
  by (auto simp: best_plugin_for_device_def dict_values_def Let_def)

lemma match_devices_override:
  "match_devices svc (Some p) ds
     = map (\<lambda>d. \<lparr>device = d, plugin = p\<rparr>) (filter (\<lambda>d. 0 < match_score d p) ds)"
  by (induction ds) (simp_all add: best_single)

lemma match_devices_best:
  "match_devices svc None ds
     = List.map_filter
         (\<lambda>d. map_option (\<lambda>p. \<lparr>device = d, plugin = p\<rparr>) (best_plugin_for_device d (plugins svc))) ds"
  by (induction ds) (simp_all add: List.map_filter_simps split: option.splits)

text \<open>
  C10. An empty string passed as \<^verbatim>\<open>device_hint\<close> or as \<^verbatim>\<open>plugin_id\<close> behaves as an absent
  argument in \<^verbatim>\<open>resolve_target\<close>, \<^verbatim>\<open>feature_values\<close>, \<^verbatim>\<open>feature_catalog\<close> and
  \<^verbatim>\<open>set_feature\<close>: the results are equal. With an empty hint the call never fails with the
  no-device-matching-hint error, and with an empty plugin id never with the unknown-plugin
  error.
\<close>

theorem empty_string_is_absent:
  "resolve_target svc ld pid (Some []) = resolve_target svc ld pid None
   \<and> resolve_target svc ld (Some []) hint = resolve_target svc ld None hint
   \<and> feature_values svc ld f pid (Some []) = feature_values svc ld f pid None
   \<and> feature_values svc ld f (Some []) hint = feature_values svc ld f None hint
   \<and> feature_catalog svc ld pid (Some []) = feature_catalog svc ld pid None
   \<and> feature_catalog svc ld (Some []) hint = feature_catalog svc ld None hint
   \<and> set_feature svc ld f v pid (Some []) = set_feature svc ld f v pid None
   \<and> set_feature svc ld f v (Some []) hint = set_feature svc ld f v None hint
   \<and> resolve_target svc (Inr devices) pid (Some [])
        \<noteq> Inl (DeviceSelectionError (''No device found matching '' @ quoted []))
   \<and> resolve_target svc (Inr devices) (Some []) hint
        \<noteq> Inl (DeviceSelectionError
                 (''Unknown plugin '' @ quoted []
                  @ ''. Use 'budsctl list' to inspect available plugins.''))"
proof -
  have r1: "resolve_target svc ld pid (Some []) = resolve_target svc ld pid None" for ld pid
    by (simp add: resolve_target_def cong: sum.case_cong option.case_cong if_cong)
  have r2: "resolve_target svc ld (Some []) hint = resolve_target svc ld None hint" for ld hint
    by (simp add: resolve_target_def cong: sum.case_cong option.case_cong if_cong)
  have n1: "resolve_target svc (Inr devices) pid None
        \<noteq> Inl (DeviceSelectionError (''No device found matching '' @ quoted []))"
    by (simp add: resolve_target_def quoted_def Let_def split: option.splits sum.splits)
  have n2: "resolve_target svc (Inr devices) None hint
        \<noteq> Inl (DeviceSelectionError
                 (''Unknown plugin '' @ quoted []
                  @ ''. Use 'budsctl list' to inspect available plugins.''))"
    by (simp add: resolve_target_def quoted_def Let_def split: option.splits sum.splits)
  show ?thesis
    using n1 n2 by (simp add: r1 r2 feature_values_def feature_catalog_def set_feature_def)
qed

lemma candidate_desc_fun:
  "map candidate_desc cs = map (\<lambda>c. mac (device c) @ '' ('' @ name (device c) @ '')'') cs"
  by (simp add: candidate_desc_def)

lemma singleton_nth0:
  "\<not> 1 < length xs \<Longrightarrow> xs \<noteq> [] \<Longrightarrow> (xs ! 0 = c) = (xs = [c])"
  by (cases xs) auto

text \<open>
  C5. Once discovery has returned devices, \<^verbatim>\<open>resolve_target\<close> fails with
  \<^verbatim>\<open>DeviceSelectionError\<close> when the plugin id is given and unknown. Otherwise, with the
  candidates being the devices scoring above 0 against the override (or, without an override,
  the devices paired with their best plugin) and the survivors being the candidates the hint
  keeps: no survivor is a \<^verbatim>\<open>DeviceSelectionError\<close> whose message depends on whether a hint
  or an override was given, more than one survivor is a \<^verbatim>\<open>DeviceSelectionError\<close> listing
  the MAC and name of each, and the call returns a target exactly when it is the only survivor.
\<close>

theorem resolve_target_selection:
  fixes svc :: buds_service and devices :: "detected_device list"
    and pid hint :: "string option"
  assumes r: "r = resolve_target svc (Inr devices) pid hint"
    and po: "po = (case pid of None \<Rightarrow> None
                   | Some i \<Rightarrow> if i = [] then None else dict_get (plugins svc) i)"
    and cands: "cands =
     (case po of
        Some p \<Rightarrow> map (\<lambda>d. \<lparr>device = d, plugin = p\<rparr>) (filter (\<lambda>d. 0 < match_score d p) devices)
      | None \<Rightarrow> List.map_filter
                  (\<lambda>d. map_option (\<lambda>p. \<lparr>device = d, plugin = p\<rparr>)
                         (best_plugin_for_device d (plugins svc))) devices)"
    and survivors: "survivors =
     (case hint of None \<Rightarrow> cands
      | Some h \<Rightarrow> if h = [] then cands else filter (hint_matches (lower h)) cands)"
    and none_left: "none_left =
     (case hint of
        Some (c # cs) \<Rightarrow> ''No device found matching '' @ quoted (c # cs)
      | _ \<Rightarrow> (case pid of
                Some (c # cs) \<Rightarrow> ''No connected device matched plugin '' @ quoted (c # cs) @ ''.''
              | _ \<Rightarrow> ''No connected device matched any plugin. Use --plugin to target explicitly or add a plugin.''))"
  shows "(truthy pid \<and> po = None \<longrightarrow> (\<exists>msg. r = Inl (DeviceSelectionError msg)))
       \<and> (devices \<noteq> [] \<and> (truthy pid \<longrightarrow> po \<noteq> None) \<longrightarrow>
            (survivors = [] \<longrightarrow> r = Inl (DeviceSelectionError none_left))
          \<and> (1 < length survivors \<longrightarrow>
               r = Inl (DeviceSelectionError
                         (''Multiple candidate devices found: ''
                          @ join '', '' (map (\<lambda>c. mac (device c) @ '' ('' @ name (device c) @ '')'')
                                           survivors)
                          @ ''. Use --device to choose one.'')))
          \<and> (\<forall>c. r = Inr c \<longleftrightarrow> survivors = [c]))"
proof -
  have md: "match_devices svc po devices = cands"
    unfolding cands by (cases po) (simp_all add: match_devices_override match_devices_best)
  show ?thesis
  proof (cases pid)
    case None
    then have po': "po = None" by (simp add: po)
    show ?thesis
    proof (cases hint)
      case hn: None
      show ?thesis
        using None hn md po' singleton_nth0[of survivors]
        by (auto simp: r resolve_target_def truthy_def survivors none_left
                      candidate_desc_fun Let_def)
    next
      case hs: (Some h)
      show ?thesis
        using None hs md po' singleton_nth0[of survivors]
        by (cases h) (auto simp: r resolve_target_def truthy_def survivors none_left
                      candidate_desc_fun Let_def)
    qed
  next
    case (Some i)
    show ?thesis
    proof (cases "i = []")
      case True
      then have po': "po = None" using Some by (simp add: po)
      show ?thesis
      proof (cases hint)
        case hn: None
        show ?thesis
          using Some True hn md po' singleton_nth0[of survivors]
          by (auto simp: r resolve_target_def truthy_def survivors none_left
                        candidate_desc_fun Let_def)
      next
        case hs: (Some h)
        show ?thesis
          using Some True hs md po' singleton_nth0[of survivors]
          by (cases h) (auto simp: r resolve_target_def truthy_def survivors none_left
                        candidate_desc_fun Let_def)
      qed
    next
      case False
      then have po': "po = dict_get (plugins svc) i" using Some by (simp add: po)
      show ?thesis
      proof (cases "dict_get (plugins svc) i")
        case dn: None
        show ?thesis
          using Some False dn po'
          by (auto simp: r resolve_target_def truthy_def)
      next
        case ds: (Some p)
        obtain c cs where i: "i = c # cs" using False by (cases i) auto
        show ?thesis
        proof (cases hint)
          case hn: None
          show ?thesis
            using Some i hn md po' ds singleton_nth0[of survivors]
            by (auto simp: r resolve_target_def truthy_def survivors none_left
                          candidate_desc_fun Let_def)
        next
          case hs: (Some h)
          show ?thesis
            using Some i hs md po' ds singleton_nth0[of survivors]
            by (cases h) (auto simp: r resolve_target_def truthy_def survivors none_left
                          candidate_desc_fun Let_def)
        qed
      qed
    qed
  qed
qed

lemmas str_eval = upper_def lower_def char_upper_def char_lower_def startswith_def str_in_def
  sublist_Cons_right

lemma score_ble_device: "match_score ble_device my_ble_buds = 3"
  by (simp add: match_score_def mac_prefix_match_def name_contains_match_def ble_device_def
        my_ble_buds_def str_eval)

lemma score_ble_device2: "match_score ble_device2 my_ble_buds = 3"
  by (simp add: match_score_def mac_prefix_match_def name_contains_match_def ble_device2_def
        my_ble_buds_def str_eval)

lemma best_ble_device: "best_plugin_for_device ble_device (plugins test_service) = Some my_ble_buds"
  by (simp add: best_plugin_for_device_def dict_values_def test_service_def score_ble_device)

lemma best_ble_device2: "best_plugin_for_device ble_device2 (plugins test_service) = Some my_ble_buds"
  by (simp add: best_plugin_for_device_def dict_values_def test_service_def score_ble_device2)

lemma hint_upper_prefix:
  "hint_matches (lower ''AA:BB:CC'') \<lparr>device = ble_device, plugin = my_ble_buds\<rparr>"
  by (simp add: hint_matches_def ble_device_def str_eval)

lemma hint_suffix1:
  "hint_matches (lower ''11:22:33'') \<lparr>device = ble_device, plugin = my_ble_buds\<rparr>"
  by (simp add: hint_matches_def ble_device_def str_eval)

lemma hint_suffix2:
  "\<not> hint_matches (lower ''11:22:33'') \<lparr>device = ble_device2, plugin = my_ble_buds\<rparr>"
  by (simp add: hint_matches_def ble_device2_def my_ble_buds_def str_eval)

lemma hint_nobody1:
  "\<not> hint_matches (lower ''sony'') \<lparr>device = ble_device, plugin = my_ble_buds\<rparr>"
  by (simp add: hint_matches_def ble_device_def my_ble_buds_def str_eval)

text \<open>
  C4, as worded, fails: with the hint \<^verbatim>\<open>AA:BB:CC\<close> of \<^verbatim>\<open>test_set_feature_ble_transport\<close> the
  candidate survives the filter and is returned, although the lower-cased hint occurs in none
  of its four fields as they stand.
\<close>

theorem resolve_target_hint_counterexample:
  "resolve_target test_service (Inr [ble_device]) (Some ''my_ble_buds'') (Some ''AA:BB:CC'')
     = Inr \<lparr>device = ble_device, plugin = my_ble_buds\<rparr>
   \<and> \<not> hint_survives_as_stated ''AA:BB:CC'' \<lparr>device = ble_device, plugin = my_ble_buds\<rparr>"
proof -
  have "\<not> hint_survives_as_stated ''AA:BB:CC'' \<lparr>device = ble_device, plugin = my_ble_buds\<rparr>"
    by (simp add: hint_survives_as_stated_def ble_device_def my_ble_buds_def str_eval)
  moreover have "resolve_target test_service (Inr [ble_device]) (Some ''my_ble_buds'') (Some ''AA:BB:CC'')
     = Inr \<lparr>device = ble_device, plugin = my_ble_buds\<rparr>"
    using hint_upper_prefix
    by (simp add: resolve_target_def dict_get_def test_service_def best_single score_ble_device
          my_ble_buds_def[THEN arg_cong, of plugin_id] ble_device_def[THEN arg_cong, of mac])
  ultimately show ?thesis by simp
qed

lemma hint_matches_iff:
  "hint_matches (lower h) c \<longleftrightarrow>
     (lower h = lower (mac (device c))
      \<or> sublist (lower h) (lower (mac (device c)))
      \<or> sublist (lower h) (lower (name (device c)))
      \<or> sublist (lower h) (lower (plugin_id (plugin c)))
      \<or> sublist (lower h) (lower (plugin_name (plugin c))))"
  by (auto simp: hint_matches_def str_in_def)

text \<open>
  C4, amended. A non-empty hint is applied to the list of candidates that plugin matching
  produced (the same list an unhinted call selects from). A candidate survives exactly when
  the lower-cased hint equals the lower-cased MAC or occurs in the lower-cased MAC, device
  name, plugin id or plugin name. With no survivor the call fails with
  \<^verbatim>\<open>DeviceSelectionError\<close>, \<^verbatim>\<open>No device found matching '<hint>'\<close>, whatever the candidates
  were; otherwise the outcome is decided among the survivors.
\<close>

theorem resolve_target_hint:
  fixes svc :: buds_service and devices :: "detected_device list"
    and pid :: "string option" and h :: string
  assumes devices: "devices \<noteq> []" and h: "h \<noteq> []"
    and po: "po = (case pid of None \<Rightarrow> None
                   | Some i \<Rightarrow> if i = [] then None else dict_get (plugins svc) i)"
    and known: "truthy pid \<longrightarrow> po \<noteq> None"
    and cands: "cands = match_devices svc po devices"
    and survivors: "survivors =
      filter (\<lambda>c. lower h = lower (mac (device c))
                 \<or> sublist (lower h) (lower (mac (device c)))
                 \<or> sublist (lower h) (lower (name (device c)))
                 \<or> sublist (lower h) (lower (plugin_id (plugin c)))
                 \<or> sublist (lower h) (lower (plugin_name (plugin c)))) cands"
  shows "(survivors = [] \<longrightarrow>
            resolve_target svc (Inr devices) pid (Some h)
              = Inl (DeviceSelectionError (''No device found matching '' @ quoted h)))
       \<and> (survivors \<noteq> [] \<longrightarrow>
            resolve_target svc (Inr devices) pid (Some h)
              = (if 1 < length survivors
                 then Inl (DeviceSelectionError
                            (''Multiple candidate devices found: ''
                             @ join '', '' (map candidate_desc survivors)
                             @ ''. Use --device to choose one.''))
                 else Inr (survivors ! 0)))
       \<and> (\<forall>c. resolve_target svc (Inr devices) pid None = Inr c \<longleftrightarrow> cands = [c])"
proof -
  have surv: "survivors = filter (hint_matches (lower h)) cands"
    unfolding survivors by (rule filter_cong) (simp_all add: hint_matches_iff)
  show ?thesis
  proof (cases pid)
    case None
    then have "po = None" using po by simp
    then show ?thesis
      using None devices h singleton_nth0[of cands]
      by (auto simp: resolve_target_def surv cands Let_def)
  next
    case (Some i)
    show ?thesis
    proof (cases "i = []")
      case True
      then have "po = None" using po Some by simp
      then show ?thesis
        using Some True devices h singleton_nth0[of cands]
        by (auto simp: resolve_target_def surv cands Let_def)
    next
      case False
      then obtain p where p: "dict_get (plugins svc) i = Some p" "po = Some p"
        using po known Some by (auto simp: truthy_def)
      then show ?thesis
        using Some False devices h singleton_nth0[of cands]
        by (auto simp: resolve_target_def surv cands Let_def)
    qed
  qed
qed

theorem resolve_target_hint_witness:
  "resolve_target test_service (Inr [ble_device, ble_device2]) None (Some ''sony'')
     = Inl (DeviceSelectionError (''No device found matching '' @ quoted ''sony''))
   \<and> resolve_target test_service (Inr [ble_device, ble_device2]) None (Some ''11:22:33'')
     = Inr \<lparr>device = ble_device, plugin = my_ble_buds\<rparr>
   \<and> match_devices test_service None [ble_device, ble_device2]
     = [\<lparr>device = ble_device, plugin = my_ble_buds\<rparr>, \<lparr>device = ble_device2, plugin = my_ble_buds\<rparr>]"
proof -
  have cands: "match_devices test_service None [ble_device, ble_device2]
     = [\<lparr>device = ble_device, plugin = my_ble_buds\<rparr>, \<lparr>device = ble_device2, plugin = my_ble_buds\<rparr>]"
    by (simp add: best_ble_device best_ble_device2)
  have ne: "[ble_device, ble_device2] \<noteq> []" by simp
  have po: "None = (case None :: string option of None \<Rightarrow> None
              | Some i \<Rightarrow> if i = [] then None else dict_get (plugins test_service) i)"
    by simp
  have known: "truthy None \<longrightarrow> (None :: plugin option) \<noteq> None"
    by (simp add: truthy_def)
  have s1: "''sony'' \<noteq> []" and s2: "''11:22:33'' \<noteq> []" by simp_all
  note a = resolve_target_hint[OF ne s1 po known refl refl]
  note b = resolve_target_hint[OF ne s2 po known refl refl]
  have f1: "filter (hint_matches (lower ''sony''))
              [\<lparr>device = ble_device, plugin = my_ble_buds\<rparr>, \<lparr>device = ble_device2, plugin = my_ble_buds\<rparr>] = []"
    by (simp add: hint_matches_def ble_device_def ble_device2_def my_ble_buds_def str_eval)
  have f2: "filter (hint_matches (lower ''11:22:33''))
              [\<lparr>device = ble_device, plugin = my_ble_buds\<rparr>, \<lparr>device = ble_device2, plugin = my_ble_buds\<rparr>]
            = [\<lparr>device = ble_device, plugin = my_ble_buds\<rparr>]"
    using hint_suffix1 hint_suffix2 by simp
  from a f1 have r1: "resolve_target test_service (Inr [ble_device, ble_device2]) None (Some ''sony'')
     = Inl (DeviceSelectionError (''No device found matching '' @ quoted ''sony''))"
    unfolding cands hint_matches_iff[symmetric] by simp
  from b f2 have r2: "resolve_target test_service (Inr [ble_device, ble_device2]) None (Some ''11:22:33'')
     = Inr \<lparr>device = ble_device, plugin = my_ble_buds\<rparr>"
    unfolding cands hint_matches_iff[symmetric] by simp
  from r1 r2 cands show ?thesis by simp
qed

theorem resolve_target_selection_witness:
  "resolve_target test_service (Inr [ble_device, ble_device2]) None None
     = Inl (DeviceSelectionError
             ''Multiple candidate devices found: AA:BB:CC:11:22:33 (My BLE Buds), AA:BB:CC:44:55:66 (My BLE Buds). Use --device to choose one.'')
   \<and> resolve_target test_service (Inr [ble_device]) (Some ''my_ble_buds'') None
     = Inr \<lparr>device = ble_device, plugin = my_ble_buds\<rparr>
   \<and> resolve_target test_service (Inr [generic_earbuds]) (Some ''my_ble_buds'') None
     = Inl (DeviceSelectionError ''No connected device matched plugin 'my_ble_buds'.'')
   \<and> (\<exists>msg. resolve_target test_service (Inr [ble_device]) (Some ''sony'') None
               = Inl (DeviceSelectionError msg))"
proof -
  have get: "dict_get (plugins test_service) ''my_ble_buds'' = Some my_ble_buds"
    and miss: "dict_get (plugins test_service) ''sony'' = None"
    by (simp_all add: dict_get_def test_service_def)
  have score0: "match_score generic_earbuds my_ble_buds = 0"
    by (simp add: match_score_def mac_prefix_match_def name_contains_match_def
          generic_earbuds_def my_ble_buds_def str_eval)
  note two = resolve_target_selection[where svc = test_service and devices = "[ble_device, ble_device2]"
      and pid = "None" and hint = None, OF refl refl refl refl refl]
  note one = resolve_target_selection[where svc = test_service and devices = "[ble_device]"
      and pid = "Some ''my_ble_buds''" and hint = None, OF refl refl refl refl refl]
  note zero = resolve_target_selection[where svc = test_service and devices = "[generic_earbuds]"
      and pid = "Some ''my_ble_buds''" and hint = None, OF refl refl refl refl refl]
  note unknown = resolve_target_selection[where svc = test_service and devices = "[ble_device]"
      and pid = "Some ''sony''" and hint = None, OF refl refl refl refl refl]
  have r2: "resolve_target test_service (Inr [ble_device, ble_device2]) None None
     = Inl (DeviceSelectionError
             ''Multiple candidate devices found: AA:BB:CC:11:22:33 (My BLE Buds), AA:BB:CC:44:55:66 (My BLE Buds). Use --device to choose one.'')"
    using two
    by (simp add: truthy_def List.map_filter_simps best_ble_device best_ble_device2
          ble_device_def[THEN arg_cong, of mac] ble_device_def[THEN arg_cong, of name]
          ble_device2_def[THEN arg_cong, of mac] ble_device2_def[THEN arg_cong, of name])
  have r1: "resolve_target test_service (Inr [ble_device]) (Some ''my_ble_buds'') None
     = Inr \<lparr>device = ble_device, plugin = my_ble_buds\<rparr>"
    using one by (simp add: truthy_def get score_ble_device)
  have r0: "resolve_target test_service (Inr [generic_earbuds]) (Some ''my_ble_buds'') None
     = Inl (DeviceSelectionError ''No connected device matched plugin 'my_ble_buds'.'')"
    using zero by (simp add: truthy_def get score0 quoted_def)
  have ru: "\<exists>msg. resolve_target test_service (Inr [ble_device]) (Some ''sony'') None
               = Inl (DeviceSelectionError msg)"
    using unknown by (simp add: truthy_def miss)
  from r2 r1 r0 ru show ?thesis by blast
qed

text \<open>
  C9. For a resolved target, an unknown feature name makes \<^verbatim>\<open>feature_values\<close> and
  \<^verbatim>\<open>set_feature\<close> fail with \<^verbatim>\<open>FeatureResolutionError\<close>, the message listing the plugin's
  feature names sorted, whatever the value name is; a known feature with an unknown value
  name makes \<^verbatim>\<open>set_feature\<close> fail with \<^verbatim>\<open>FeatureResolutionError\<close>, the message listing
  the feature's value names sorted. In both cases no transport is called.
\<close>

theorem feature_lookup_errors:
  assumes tgt: "resolve_target svc ld pid hint = Inr tgt"
  shows "(dict_get (features (plugin tgt)) f = None \<longrightarrow>
            feature_values svc ld f pid hint
              = Inl (FeatureResolutionError
                      (''Plugin '' @ quoted (plugin_id (plugin tgt))
                       @ '' does not define feature '' @ quoted f
                       @ ''. Available: '' @ join '', '' (sort (map fst (features (plugin tgt))))))
          \<and> set_feature svc ld f v pid hint
              = (Inl (FeatureResolutionError
                       (''Plugin '' @ quoted (plugin_id (plugin tgt))
                        @ '' does not define feature '' @ quoted f
                        @ ''. Available: '' @ join '', '' (sort (map fst (features (plugin tgt)))))),
                 []))
       \<and> (\<forall>spec. dict_get (features (plugin tgt)) f = Some spec
                   \<and> dict_get (fvalues spec) v = None \<longrightarrow>
            set_feature svc ld f v pid hint
              = (Inl (FeatureResolutionError
                       (''Feature '' @ quoted f @ '' does not support value '' @ quoted v
                        @ ''. Allowed: '' @ join '', '' (sort (map fst (fvalues spec))))),
                 []))"
  by (simp add: feature_values_def set_feature_def tgt dict_keys_def)

theorem feature_lookup_errors_witness:
  "set_feature test_service (Inr [ble_device]) ''spatial_audio'' ''on'' None None
     = (Inl (FeatureResolutionError
              ''Plugin 'my_ble_buds' does not define feature 'spatial_audio'. Available: game_mode''),
        [])
   \<and> set_feature test_service (Inr [ble_device]) ''game_mode'' ''bogus'' None None
     = (Inl (FeatureResolutionError
              ''Feature 'game_mode' does not support value 'bogus'. Allowed: off, on''),
        [])"
proof -
  have tgt: "resolve_target test_service (Inr [ble_device]) None None
               = Inr \<lparr>device = ble_device, plugin = my_ble_buds\<rparr>"
    by (simp add: resolve_target_def best_ble_device)
  note w = feature_lookup_errors[OF tgt]
  have a: "dict_get (features my_ble_buds) ''spatial_audio'' = None"
    by (simp add: dict_get_def my_ble_buds_def)
  have b: "dict_get (features my_ble_buds) ''game_mode''
             = Some \<lparr>feature_type = ''enum'', fvalues = [(''on'', [0xAA, 0x01]), (''off'', [0xAA, 0x00])]\<rparr>"
    by (simp add: dict_get_def my_ble_buds_def)
  have c: "dict_get (fvalues \<lparr>feature_type = ''enum'', fvalues = [(''on'', [0xAA, 0x01 :: byte]), (''off'', [0xAA, 0x00])]\<rparr>) ''bogus'' = None"
    by (simp add: dict_get_def)
  have feats: "map fst (features my_ble_buds) = [''game_mode'']"
    by (simp add: my_ble_buds_def)
  have pid: "plugin_id my_ble_buds = ''my_ble_buds''"
    by (simp add: my_ble_buds_def)
  from w[of "''spatial_audio''" "''on''"] a
  have r1: "set_feature test_service (Inr [ble_device]) ''spatial_audio'' ''on'' None None
     = (Inl (FeatureResolutionError
              ''Plugin 'my_ble_buds' does not define feature 'spatial_audio'. Available: game_mode''),
        [])"
    by (simp add: feats pid quoted_def)
  from w[of "''game_mode''" "''bogus''"] b c
  have r2: "set_feature test_service (Inr [ble_device]) ''game_mode'' ''bogus'' None None
     = (Inl (FeatureResolutionError
              ''Feature 'game_mode' does not support value 'bogus'. Allowed: off, on''),
        [])"
    by (simp add: quoted_def)
  from r1 r2 show ?thesis by simp
qed

theorem empty_string_is_absent_witness:
  "resolve_target test_service (Inr [ble_device]) (Some []) (Some [])
     = Inr \<lparr>device = ble_device, plugin = my_ble_buds\<rparr>
   \<and> set_feature test_service (Inr [ble_device]) ''game_mode'' ''on'' (Some []) (Some [])
     = set_feature test_service (Inr [ble_device]) ''game_mode'' ''on'' None None"
proof -
  have tgt: "resolve_target test_service (Inr [ble_device]) None None
               = Inr \<lparr>device = ble_device, plugin = my_ble_buds\<rparr>"
    by (simp add: resolve_target_def best_ble_device)
  note w = empty_string_is_absent[of test_service "Inr [ble_device]" _ "None"]
  from w[of "Some []"] w[of None] tgt
  have "resolve_target test_service (Inr [ble_device]) (Some []) (Some [])
     = Inr \<lparr>device = ble_device, plugin = my_ble_buds\<rparr>"
    by simp
  moreover from w[of "Some []" "''game_mode''" "''on''"] w[of None "''game_mode''" "''on''"]
  have "set_feature test_service (Inr [ble_device]) ''game_mode'' ''on'' (Some []) (Some [])
     = set_feature test_service (Inr [ble_device]) ''game_mode'' ''on'' None None"
    by simp
  ultimately show ?thesis by simp
qed

section \<open>Properties of hex payload normalisation\<close>

lemma char_lower_cases:
  "char_lower c = c \<or> (c \<in> set ''ABCDEFGHIJKLMNOPQRSTUVWXYZ'' \<and> char_lower c \<in> set ''abcdefghijklmnopqrstuvwxyz'')"
proof (cases "map_of (zip ''ABCDEFGHIJKLMNOPQRSTUVWXYZ'' ''abcdefghijklmnopqrstuvwxyz'') c")
  case None
  have "char_lower c = c"
    unfolding char_lower_def None by (simp only: option.case)
  then show ?thesis by (rule disjI1)
next
  case (Some l)
  then have mem: "(c, l) \<in> set (zip ''ABCDEFGHIJKLMNOPQRSTUVWXYZ'' ''abcdefghijklmnopqrstuvwxyz'')"
    by (rule map_of_SomeD)
  have l: "char_lower c = l"
    unfolding char_lower_def Some by (simp only: option.case)
  have "c \<in> set ''ABCDEFGHIJKLMNOPQRSTUVWXYZ''"
    using mem by (rule set_zip_leftD)
  moreover have "l \<in> set ''abcdefghijklmnopqrstuvwxyz''"
    using mem by (rule set_zip_rightD)
  ultimately show ?thesis unfolding l by (intro disjI2 conjI)
qed

lemma upper_letter_not_space: "c \<in> set ''ABCDEFGHIJKLMNOPQRSTUVWXYZ'' \<Longrightarrow> \<not> is_space c"
  by (auto simp: is_space_def)

lemma lower_letter_not_space: "c \<in> set ''abcdefghijklmnopqrstuvwxyz'' \<Longrightarrow> \<not> is_space c"
  by (auto simp: is_space_def)

lemma is_space_char_lower: "is_space (char_lower c) = is_space c"
  using char_lower_cases[of c] upper_letter_not_space[of c] lower_letter_not_space[of "char_lower c"]
  by metis

lemma strip_last_not_space: "strip v \<noteq> [] \<Longrightarrow> \<not> is_space (last (strip v))"
proof -
  assume ne: "strip v \<noteq> []"
  let ?r = "dropWhile is_space (rev (dropWhile is_space v))"
  from ne have r: "?r \<noteq> []" by (simp add: strip_def)
  then have "\<not> is_space (hd ?r)" by (rule hd_dropWhile)
  moreover have "last (strip v) = hd ?r"
    using r by (simp add: strip_def last_rev)
  ultimately show ?thesis by simp
qed

lemma normalized_last:
  assumes "remove_spaces (lower (strip v)) \<noteq> []"
  shows "\<not> is_space (last (remove_spaces (lower (strip v))))"
proof -
  let ?s = "strip v"
  from assms have ne: "?s \<noteq> []" by (auto simp: remove_spaces_def lower_def)
  then have ns: "\<not> is_space (last ?s)" by (rule strip_last_not_space)
  from ne obtain xs x where s: "?s = xs @ [x]" by (metis rev_exhaust)
  with ns have x: "\<not> is_space (char_lower x)" by (simp add: is_space_char_lower)
  have sp: "is_space (CHR '' '')" by (simp add: is_space_def)
  with x have "char_lower x \<noteq> CHR '' ''" by metis
  then have "remove_spaces (lower ?s) = remove_spaces (lower xs) @ [char_lower x]"
    by (simp add: s remove_spaces_def lower_def)
  with x show ?thesis by simp
qed

lemma hex_re_match_normalized:
  assumes "n = remove_spaces (lower (strip v))" and "n \<noteq> []"
  shows "hex_re_match n = list_all is_hex_lower n"
proof -
  have "\<not> is_space (last n)" using assms normalized_last by simp
  moreover have "is_space (CHR 0x0A)" by (simp add: is_space_def)
  ultimately have "last n \<noteq> CHR 0x0A" by metis
  then show ?thesis using assms(2) by (simp add: hex_re_match_def)
qed

lemma hex_digit_value:
  "is_hex_lower c \<Longrightarrow> digit_value c = Some (hex_val c) \<and> \<not> c_isspace c"
  by (auto simp: is_hex_lower_def digit_value_def hex_val_def c_isspace_def)

lemma fromhex_decode:
  "list_all is_hex_lower n \<Longrightarrow> even (length n) \<Longrightarrow>
     fromhex n = Inr (decode_hex n) \<and> length (decode_hex n) = length n div 2"
proof (induction n rule: decode_hex.induct)
  case (1 a b cs)
  then have "is_hex_lower a" "is_hex_lower b" "list_all is_hex_lower cs" "even (length cs)"
    by simp_all
  with 1 hex_digit_value[of a] hex_digit_value[of b] show ?case by simp
next
  case (2 a)
  then show ?case by simp
next
  case 3
  then show ?case by simp
qed

text \<open>
  C6, amended. Let \<open>n\<close> be the payload string with its leading and trailing whitespace
  stripped, lower-cased, and with every space character removed (other whitespace inside the
  string stays). The payload is accepted exactly when \<open>n\<close> is non-empty, of even length, made
  of the digits \<^verbatim>\<open>0-9a-f\<close> only and at most 512 bytes long when decoded; the result is then the
  decoded bytes. Every other payload is rejected with \<^verbatim>\<open>PluginValidationError\<close>.
\<close>

theorem normalize_hex_accepts:
  assumes n: "n = filter (\<lambda>c. c \<noteq> CHR '' '') (lower (strip v))"
  shows "if n \<noteq> [] \<and> even (length n) \<and> list_all is_hex_lower n \<and> length n div 2 \<le> 512
         then normalize_hex v ctx = Inr (decode_hex n) \<and> length (decode_hex n) = length n div 2
         else (\<exists>msg. normalize_hex v ctx = Inl (PluginValidationError msg))"
proof -
  have n': "n = remove_spaces (lower (strip v))" by (simp add: n remove_spaces_def)
  show ?thesis
  proof (cases "n = []")
    case True
    then show ?thesis using n' by (simp add: normalize_hex_def)
  next
    case ne: False
    note re = hex_re_match_normalized[OF n' ne]
    show ?thesis
    proof (cases "even (length n)")
      case False
      then have "length n mod 2 \<noteq> 0" by presburger
      then show ?thesis using ne n' False by (simp add: normalize_hex_def)
    next
      case ev: True
      then have m: "length n mod 2 = 0" by presburger
      show ?thesis
      proof (cases "list_all is_hex_lower n")
        case False
        then show ?thesis using ne n' m re by (simp add: normalize_hex_def)
      next
        case True
        from fromhex_decode[OF True ev] show ?thesis
          using ne n' m re True ev
          by (simp add: normalize_hex_def max_payload_bytes_def Let_def)
      qed
    qed
  qed
qed

text \<open>
  C6, as worded, fails on a payload with a tab between its bytes: lower-cased and with its
  whitespace removed it is \<^verbatim>\<open>aa00\<close>, which the wording accepts, but the code keeps the tab
  and rejects the five-character string for its odd length.
\<close>

theorem normalize_hex_counterexample:
  "hex_payload_accepted_as_stated [CHR ''a'', CHR ''a'', CHR 0x09, CHR ''0'', CHR ''0'']
   \<and> normalize_hex [CHR ''a'', CHR ''a'', CHR 0x09, CHR ''0'', CHR ''0''] ''p.anc.on''
       = Inl (PluginValidationError ''p.anc.on must have even-length hex'')"
  by (simp add: hex_payload_accepted_as_stated_def normalize_hex_def strip_def is_space_def
        remove_spaces_def lower_def char_lower_def is_hex_lower_def)

theorem normalize_hex_accepts_witness:
  "normalize_hex ''AA 00'' ''p.anc.on'' = Inr [0xAA, 0x00]
   \<and> (\<exists>msg. normalize_hex ''xyz'' ''p.anc.on'' = Inl (PluginValidationError msg))
   \<and> (\<exists>msg. normalize_hex ''a'' ''p.anc.on'' = Inl (PluginValidationError msg))
   \<and> (\<exists>msg. normalize_hex (replicate 1026 (CHR ''a'')) ''p.anc.on''
              = Inl (PluginValidationError msg))"
proof -
  have n1: "filter (\<lambda>c. c \<noteq> CHR '' '') (lower (strip ''AA 00'')) = ''aa00''"
    by (simp add: strip_def is_space_def lower_def char_lower_def)
  have n2: "filter (\<lambda>c. c \<noteq> CHR '' '') (lower (strip ''xyz'')) = ''xyz''"
    by (simp add: strip_def is_space_def lower_def char_lower_def)
  have n3: "filter (\<lambda>c. c \<noteq> CHR '' '') (lower (strip ''a'')) = ''a''"
    by (simp add: strip_def is_space_def lower_def char_lower_def)
  have n4: "filter (\<lambda>c. c \<noteq> CHR '' '') (lower (strip (replicate 1026 (CHR ''a''))))
              = replicate 1026 (CHR ''a'')"
    by (simp add: strip_def is_space_def lower_def char_lower_def dropWhile_replicate)
  have d1: "decode_hex ''aa00'' = [0xAA, 0x00]"
    by (simp add: hex_val_def)
  have r1: "normalize_hex ''AA 00'' ''p.anc.on'' = Inr [0xAA, 0x00]"
    using normalize_hex_accepts[OF n1[symmetric], of "''p.anc.on''"] d1
    by (simp add: is_hex_lower_def)
  have r2: "\<exists>msg. normalize_hex ''xyz'' ''p.anc.on'' = Inl (PluginValidationError msg)"
    using normalize_hex_accepts[OF n2[symmetric], of "''p.anc.on''"] by simp
  have r3: "\<exists>msg. normalize_hex ''a'' ''p.anc.on'' = Inl (PluginValidationError msg)"
    using normalize_hex_accepts[OF n3[symmetric], of "''p.anc.on''"] by simp
  have r4: "\<exists>msg. normalize_hex (replicate 1026 (CHR ''a'')) ''p.anc.on''
              = Inl (PluginValidationError msg)"
    using normalize_hex_accepts[OF n4[symmetric], of "''p.anc.on''"] by simp
  from r1 r2 r3 r4 show ?thesis by blast
qed

section \<open>Properties of the plugin merge\<close>

lemma dict_get_merge_step:
  "dict_get (merge_step p pmap) k = (if k = plugin_id p then Some p else dict_get pmap k)"
  by (simp add: merge_step_def dict_get_def dict_set_def update_conv')

lemma dict_contains_merge_step:
  "dict_contains (merge_step p pmap) k \<longleftrightarrow> k = plugin_id p \<or> dict_contains pmap k"
  by (simp add: merge_step_def dict_contains_def dict_set_def update_conv')

lemma dict_get_merge:
  "dict_get (fold merge_step ps pmap) k
     = (case map_of (rev (map (\<lambda>p. (plugin_id p, p)) ps)) k of
          Some p \<Rightarrow> Some p | None \<Rightarrow> dict_get pmap k)"
proof (induction ps arbitrary: pmap)
  case Nil
  then show ?case by simp
next
  case (Cons p ps)
  show ?case
    by (simp add: Cons.IH dict_get_merge_step map_add_def split: option.splits)
qed

lemma dict_contains_merge:
  "dict_contains (fold merge_step ps pmap) k
     \<longleftrightarrow> k \<in> set (map plugin_id ps) \<or> dict_contains pmap k"
proof (induction ps arbitrary: pmap)
  case Nil
  then show ?case by simp
next
  case (Cons p ps)
  show ?case
    by (auto simp: Cons.IH dict_contains_merge_step)
qed

lemma dict_contains_Nil: "\<not> dict_contains [] k"
  by (simp add: dict_contains_def)

lemma load_packaged_ok:
  assumes "map (\<lambda>s. case read_yaml s of Inl e \<Rightarrow> Inl e | Inr doc \<Rightarrow> build_plugin doc s) srcs
             = map Inr ps"
  shows "load_packaged read_yaml build_plugin srcs pmap = Inr (fold merge_step ps pmap)"
  using assms
proof (induction srcs arbitrary: ps pmap)
  case Nil
  then show ?case by simp
next
  case (Cons s srcs)
  then obtain p ps' where ps: "ps = p # ps'" by (cases ps) auto
  with Cons.prems have hd: "(case read_yaml s of Inl e \<Rightarrow> Inl e | Inr doc \<Rightarrow> build_plugin doc s) = Inr p"
    and tl: "map (\<lambda>s. case read_yaml s of Inl e \<Rightarrow> Inl e | Inr doc \<Rightarrow> build_plugin doc s) srcs = map Inr ps'"
    by simp_all
  from hd obtain doc where doc: "read_yaml s = Inr doc" "build_plugin doc s = Inr p"
    by (auto split: sum.splits)
  show ?case
    using Cons.IH[OF tl, of "merge_step p pmap"] by (simp add: doc ps merge_step_def[symmetric])
qed

lemma user_warnings_Cons:
  "user_warnings seen (u # us)
     = (if plugin_id u \<in> set seen
        then [''User plugin '' @ quoted (plugin_id u) @ '' overrides packaged plugin'']
        else [])
       @ user_warnings (plugin_id u # seen) us"
proof -
  have upt: "[0..<length (u # us)] = 0 # map Suc [0..<length us]"
    by (simp add: upt_conv_Cons map_Suc_upt del: upt_Suc)
  show ?thesis
    unfolding user_warnings_def upt
    by (simp add: filter_map o_def disj_ac)
qed

lemma load_user_ok:
  assumes "map (\<lambda>s. case read_yaml s of Inl e \<Rightarrow> Inl e | Inr doc \<Rightarrow> build_plugin doc s) srcs
             = map Inr us"
    and "set seen = {k. dict_contains pmap k}"
  shows "load_user read_yaml build_plugin srcs (pmap, warns)
           = Inr (fold merge_step us pmap, warns @ user_warnings seen us)"
  using assms
proof (induction srcs arbitrary: us pmap warns seen)
  case Nil
  then show ?case by (simp add: user_warnings_def)
next
  case (Cons s srcs)
  then obtain u us' where us: "us = u # us'" by (cases us) auto
  with Cons.prems have hd: "(case read_yaml s of Inl e \<Rightarrow> Inl e | Inr doc \<Rightarrow> build_plugin doc s) = Inr u"
    and tl: "map (\<lambda>s. case read_yaml s of Inl e \<Rightarrow> Inl e | Inr doc \<Rightarrow> build_plugin doc s) srcs = map Inr us'"
    by simp_all
  from hd obtain doc where doc: "read_yaml s = Inr doc" "build_plugin doc s = Inr u"
    by (auto split: sum.splits)
  have seen': "set (plugin_id u # seen) = {k. dict_contains (merge_step u pmap) k}"
    using Cons.prems(2) by (auto simp: dict_contains_merge_step)
  have mem: "dict_contains pmap (plugin_id u) \<longleftrightarrow> plugin_id u \<in> set seen"
    using Cons.prems(2) by simp
  show ?case
    using Cons.IH[OF tl seen']
    by (simp add: doc us mem user_warnings_Cons merge_step_def[symmetric] Let_def)
qed

text \<open>
  C3, amended. When every document reads and builds, \<^verbatim>\<open>load_plugins\<close> returns a result:
  a collision of ids is never an error. In the mapping, each id holds the plugin of the last
  document with that id in the order bundled (sorted by name) then user. The warnings are,
  in order, one \<^verbatim>\<open>User plugin '<id>' overrides packaged plugin\<close> for every user document
  whose id is the id of a bundled document or of an earlier user document; a bundled document
  that replaces an earlier bundled one adds no warning.
\<close>

theorem load_plugins_merge:
  fixes read_yaml :: "source \<Rightarrow> error + 'doc"
    and build_plugin :: "'doc \<Rightarrow> source \<Rightarrow> error + plugin"
  assumes bundled:
      "map (\<lambda>s. case read_yaml s of Inl e \<Rightarrow> Inl e | Inr doc \<Rightarrow> build_plugin doc s)
         (map Packaged (sort packaged)) = map Inr bundled"
    and users:
      "map (\<lambda>s. case read_yaml s of Inl e \<Rightarrow> Inl e | Inr doc \<Rightarrow> build_plugin doc s)
         (map UserFile user_paths) = map Inr users"
  shows "\<exists>res. load_plugins read_yaml build_plugin packaged user_paths = Inr res
           \<and> (\<forall>k. dict_get (lp_plugins res) k
                      = map_of (rev (map (\<lambda>p. (plugin_id p, p)) (bundled @ users))) k)
           \<and> lp_warnings res
               = map (\<lambda>i. ''User plugin '' @ quoted (plugin_id (users ! i))
                            @ '' overrides packaged plugin'')
                   (filter (\<lambda>i. plugin_id (users ! i)
                                  \<in> set (map plugin_id (bundled @ take i users)))
                      [0..<length users])"
proof -
  let ?base = "fold merge_step bundled []"
  have p: "load_packaged read_yaml build_plugin (map Packaged (sort packaged)) [] = Inr ?base"
    using bundled by (rule load_packaged_ok)
  have seen: "set (map plugin_id bundled) = {k. dict_contains ?base k}"
    by (auto simp: dict_contains_merge dict_contains_Nil)
  have u: "load_user read_yaml build_plugin (map UserFile user_paths) (?base, [])
             = Inr (fold merge_step users ?base, [] @ user_warnings (map plugin_id bundled) users)"
    using users seen by (rule load_user_ok)
  have all: "fold merge_step users ?base = fold merge_step (bundled @ users) []"
    by simp
  have res: "load_plugins read_yaml build_plugin packaged user_paths
               = Inr \<lparr>lp_plugins = fold merge_step (bundled @ users) [],
                      lp_warnings = user_warnings (map plugin_id bundled) users\<rparr>"
    using p u by (simp add: load_plugins_def)
  have get: "dict_get (fold merge_step (bundled @ users) []) k
               = map_of (rev (map (\<lambda>p. (plugin_id p, p)) (bundled @ users))) k" for k
    unfolding dict_get_merge by (simp add: dict_get_def map_add_def split: option.splits)
  show ?thesis
    unfolding res using get by (simp add: user_warnings_def)
qed

text \<open>
  C3, as worded, fails for two bundled documents with the same id: the second replaces the
  first, and no warning is appended, where the wording asks for one.
\<close>

theorem load_plugins_merge_counterexample:
  "load_plugins fixture_read fixture_build [''a.yaml'', ''b.yaml''] []
     = Inr \<lparr>lp_plugins = [(''dup'', (test_plugin ''dup'' [''Dup''] [''AA:BB:CC''])
                                       \<lparr>plugin_name := ''b.yaml''\<rparr>)],
            lp_warnings = []\<rparr>
   \<and> merge_warnings_as_stated
         [(test_plugin ''dup'' [''Dup''] [''AA:BB:CC''])\<lparr>plugin_name := ''a.yaml''\<rparr>,
          (test_plugin ''dup'' [''Dup''] [''AA:BB:CC''])\<lparr>plugin_name := ''b.yaml''\<rparr>]
       = [''User plugin 'dup' overrides packaged plugin'']"
proof -
  have ids: "plugin_id (test_plugin ''dup'' [''Dup''] [''AA:BB:CC'']) = ''dup''"
    by (simp add: test_plugin_def)
  have srt: "sort [''a.yaml'', ''b.yaml''] = [''a.yaml'', ''b.yaml'']"
    by simp
  have a: "load_plugins fixture_read fixture_build [''a.yaml'', ''b.yaml''] []
     = Inr \<lparr>lp_plugins = [(''dup'', (test_plugin ''dup'' [''Dup''] [''AA:BB:CC''])
                                       \<lparr>plugin_name := ''b.yaml''\<rparr>)],
            lp_warnings = []\<rparr>"
    unfolding load_plugins_def srt
    by (simp add: fixture_read_def fixture_build_def source_name_def dict_set_def ids)
  have upt: "[0..<2] = [0, Suc 0]" by (simp add: upt_rec)
  have b: "merge_warnings_as_stated
         [(test_plugin ''dup'' [''Dup''] [''AA:BB:CC''])\<lparr>plugin_name := ''a.yaml''\<rparr>,
          (test_plugin ''dup'' [''Dup''] [''AA:BB:CC''])\<lparr>plugin_name := ''b.yaml''\<rparr>]
       = [''User plugin 'dup' overrides packaged plugin'']"
    by (simp add: merge_warnings_as_stated_def upt ids quoted_def)
  from a b show ?thesis by simp
qed

theorem load_plugins_merge_witness:
  "\<exists>res. load_plugins fixture_read fixture_build [''oneplus_buds4.yaml''] [''/cfg/override.yaml'']
           = Inr res
         \<and> map_option plugin_name (dict_get (lp_plugins res) ''dup'') = Some ''/cfg/override.yaml''
         \<and> lp_warnings res = [''User plugin 'dup' overrides packaged plugin'']"
proof -
  have ids: "plugin_id (test_plugin ''dup'' [''Dup''] [''AA:BB:CC'']) = ''dup''"
    by (simp add: test_plugin_def)
  have b: "map (\<lambda>s. case fixture_read s of Inl e \<Rightarrow> Inl e | Inr doc \<Rightarrow> fixture_build doc s)
             (map Packaged (sort [''oneplus_buds4.yaml'']))
           = map Inr [(test_plugin ''dup'' [''Dup''] [''AA:BB:CC''])
                         \<lparr>plugin_name := ''oneplus_buds4.yaml''\<rparr>]"
    by (simp add: fixture_read_def fixture_build_def source_name_def)
  have u: "map (\<lambda>s. case fixture_read s of Inl e \<Rightarrow> Inl e | Inr doc \<Rightarrow> fixture_build doc s)
             (map UserFile [''/cfg/override.yaml''])
           = map Inr [(test_plugin ''dup'' [''Dup''] [''AA:BB:CC''])
                         \<lparr>plugin_name := ''/cfg/override.yaml''\<rparr>]"
    by (simp add: fixture_read_def fixture_build_def source_name_def)
  from load_plugins_merge[OF b u] obtain res where
    res: "load_plugins fixture_read fixture_build [''oneplus_buds4.yaml''] [''/cfg/override.yaml'']
            = Inr res"
    and get: "\<forall>k. dict_get (lp_plugins res) k
                 = map_of (rev (map (\<lambda>p. (plugin_id p, p))
                     ([(test_plugin ''dup'' [''Dup''] [''AA:BB:CC''])\<lparr>plugin_name := ''oneplus_buds4.yaml''\<rparr>]
                      @ [(test_plugin ''dup'' [''Dup''] [''AA:BB:CC''])\<lparr>plugin_name := ''/cfg/override.yaml''\<rparr>]))) k"
    and warn: "lp_warnings res
               = map (\<lambda>i. ''User plugin ''
                            @ quoted (plugin_id ([(test_plugin ''dup'' [''Dup''] [''AA:BB:CC''])\<lparr>plugin_name := ''/cfg/override.yaml''\<rparr>] ! i))
                            @ '' overrides packaged plugin'')
                   (filter (\<lambda>i. plugin_id ([(test_plugin ''dup'' [''Dup''] [''AA:BB:CC''])\<lparr>plugin_name := ''/cfg/override.yaml''\<rparr>] ! i)
                                  \<in> set (map plugin_id
                                       ([(test_plugin ''dup'' [''Dup''] [''AA:BB:CC''])\<lparr>plugin_name := ''oneplus_buds4.yaml''\<rparr>]
                                        @ take i [(test_plugin ''dup'' [''Dup''] [''AA:BB:CC''])\<lparr>plugin_name := ''/cfg/override.yaml''\<rparr>])))
                      [0..<length [(test_plugin ''dup'' [''Dup''] [''AA:BB:CC''])\<lparr>plugin_name := ''/cfg/override.yaml''\<rparr>]])"
    by blast
  have g: "map_option plugin_name (dict_get (lp_plugins res) ''dup'') = Some ''/cfg/override.yaml''"
    using get by (simp add: ids)
  have w: "lp_warnings res = [''User plugin 'dup' overrides packaged plugin'']"
    unfolding warn by (simp add: ids quoted_def)
  from res g w show ?thesis by blast
qed

section \<open>Properties of device discovery\<close>

lemma scan_lines_found:
  "seen = map mac devices \<Longrightarrow> scan_lines parse lines (seen, devices) = (seen', devices') \<Longrightarrow>
     seen' = map mac devices'
     \<and> (devices' \<noteq> [] \<longleftrightarrow> devices \<noteq> [] \<or> (\<exists>line \<in> set lines. parse line \<noteq> None))"
proof (induction lines arbitrary: seen devices)
  case Nil
  then show ?case by auto
next
  case (Cons line lines)
  show ?case
  proof (cases "parse line")
    case None
    with Cons.prems have "scan_lines parse lines (seen, devices) = (seen', devices')" by simp
    from Cons.IH[OF Cons.prems(1) this] None show ?thesis by simp
  next
    case (Some found)
    obtain dmac dname where found: "found = (dmac, dname)" by (cases found)
    show ?thesis
    proof (cases "dmac \<in> set seen")
      case True
      with Cons.prems Some found
      have run: "scan_lines parse lines (seen, devices) = (seen', devices')" by simp
      from True Cons.prems(1) have "devices \<noteq> []" by auto
      with Cons.IH[OF Cons.prems(1) run] show ?thesis by simp
    next
      case False
      with Cons.prems Some found
      have run: "scan_lines parse lines
                   (seen @ [dmac], devices @ [\<lparr>mac = dmac, name = dname\<rparr>]) = (seen', devices')"
        by simp
      have inv: "seen @ [dmac] = map mac (devices @ [\<lparr>mac = dmac, name = dname\<rparr>])"
        using Cons.prems(1) by simp
      from Cons.IH[OF inv run] Some show ?thesis by simp
    qed
  qed
qed

lemma run_commands_found:
  "seen = map mac devices \<Longrightarrow>
   run_commands run parse cmds (seen, devices, errs) = (seen', devices', errs') \<Longrightarrow>
     seen' = map mac devices'
     \<and> (devices' \<noteq> [] \<longleftrightarrow> devices \<noteq> [] \<or> list_ex (yields run parse) cmds)
     \<and> (errs' \<noteq> [] \<longleftrightarrow> errs \<noteq> [] \<or> list_ex (reports_error run) cmds)"
proof (induction cmds arbitrary: seen devices errs)
  case Nil
  then show ?case by auto
next
  case (Cons cmd cmds)
  show ?case
  proof (cases "run cmd")
    case None
    with Cons.prems have "run_commands run parse cmds (seen, devices, errs) = (seen', devices', errs')"
      by simp
    from Cons.IH[OF Cons.prems(1) this] None show ?thesis
      by (simp add: yields_def reports_error_def)
  next
    case (Some result)
    show ?thesis
    proof (cases "returncode result = 0")
      case True
      obtain s2 d2 where scan: "scan_lines parse (splitlines (stdout result)) (seen, devices) = (s2, d2)"
        by (cases "scan_lines parse (splitlines (stdout result)) (seen, devices)")
      with Cons.prems Some True
      have run: "run_commands run parse cmds (s2, d2, errs) = (seen', devices', errs')" by simp
      from scan_lines_found[OF Cons.prems(1) scan]
      have inv: "s2 = map mac d2"
        and d2: "d2 \<noteq> [] \<longleftrightarrow> devices \<noteq> [] \<or> (\<exists>line \<in> set (splitlines (stdout result)). parse line \<noteq> None)"
        by simp_all
      from Cons.IH[OF inv run] d2 Some True show ?thesis
        by (simp add: yields_def reports_error_def list_ex_iff)
    next
      case False
      show ?thesis
      proof (cases "strip (stderr result) = []")
        case True
        with Cons.prems Some False
        have "run_commands run parse cmds (seen, devices, errs) = (seen', devices', errs')"
          by simp
        from Cons.IH[OF Cons.prems(1) this] Some False True show ?thesis
          by (simp add: yields_def reports_error_def)
      next
        case ne: False
        with Cons.prems Some False
        have "run_commands run parse cmds
                (seen, devices, errs @ [join '' '' cmd @ '' -> '' @ strip (stderr result)])
              = (seen', devices', errs')"
          by (simp add: Let_def)
        from Cons.IH[OF Cons.prems(1) this] Some False ne show ?thesis
          by (simp add: yields_def reports_error_def)
      qed
    qed
  qed
qed

text \<open>
  C8, amended. Discovery fails with \<^verbatim>\<open>DeviceDiscoveryError\<close> exactly when no command yields a
  device and at least one command reports an error; it returns the empty list exactly when
  no command yields a device and none reports an error; and it returns a non-empty list
  exactly when some command yields a device.
\<close>

theorem discover_devices_outcomes:
  fixes run :: runner
  assumes found: "found \<longleftrightarrow> list_ex (yields run parse_device_line) bluetoothctl_commands
                             \<or> list_ex (yields run parse_mac_line) fallback_commands"
    and reported: "reported \<longleftrightarrow>
                     list_ex (reports_error run) (bluetoothctl_commands @ fallback_commands)"
  shows "((\<exists>msg. discover_devices run = Inl (DeviceDiscoveryError msg))
            \<longleftrightarrow> \<not> found \<and> reported)
       \<and> (discover_devices run = Inr [] \<longleftrightarrow> \<not> found \<and> \<not> reported)
       \<and> ((\<exists>d ds. discover_devices run = Inr (d # ds)) \<longleftrightarrow> found)"
proof -
  obtain s1 d1 e1 where bt:
    "run_commands run parse_device_line bluetoothctl_commands ([], [], []) = (s1, d1, e1)"
    by (cases "run_commands run parse_device_line bluetoothctl_commands ([], [], [])") auto
  have start: "[] = map mac ([] :: detected_device list)" by simp
  from run_commands_found[OF start bt]
  have inv1: "s1 = map mac d1"
    and d1: "d1 \<noteq> [] \<longleftrightarrow> list_ex (yields run parse_device_line) bluetoothctl_commands"
    and e1: "e1 \<noteq> [] \<longleftrightarrow> list_ex (reports_error run) bluetoothctl_commands"
    by simp_all
  obtain s2 d2 e2 where fb:
    "run_commands run parse_mac_line fallback_commands (s1, d1, e1) = (s2, d2, e2)"
    by (cases "run_commands run parse_mac_line fallback_commands (s1, d1, e1)") auto
  from run_commands_found[OF inv1 fb]
  have d2: "d2 \<noteq> [] \<longleftrightarrow> d1 \<noteq> [] \<or> list_ex (yields run parse_mac_line) fallback_commands"
    and e2: "e2 \<noteq> [] \<longleftrightarrow> e1 \<noteq> [] \<or> list_ex (reports_error run) fallback_commands"
    by simp_all
  have res: "discover_devices run =
               (if d1 \<noteq> [] then Inr d1
                else if d2 \<noteq> [] then Inr d2
                else if e2 \<noteq> [] then
                  Inl (DeviceDiscoveryError
                        (''Bluetooth discovery failed. Ensure a working D-Bus/BlueZ session. Details: ''
                         @ join '' | '' e2))
                else Inr d2)"
  proof (cases "d1 = []")
    case True
    with fb have "run_commands run parse_mac_line fallback_commands (s1, [], e1) = (s2, d2, e2)"
      by simp
    then show ?thesis by (simp add: discover_devices_def bt True)
  next
    case False
    then show ?thesis by (simp add: discover_devices_def bt)
  qed
  have f: "found \<longleftrightarrow> d1 \<noteq> [] \<or> d2 \<noteq> []" using found d1 d2 by blast
  have r: "reported \<longleftrightarrow> e2 \<noteq> []" using reported e1 e2 by (simp add: list_ex_append)
  show ?thesis
  proof (cases "d1 = []")
    case True
    show ?thesis
    proof (cases "d2 = []")
      case d2e: True
      show ?thesis using True d2e f r res by auto
    next
      case False
      then obtain d ds where "d2 = d # ds" by (cases d2) auto
      then show ?thesis using True f r res by auto
    qed
  next
    case False
    then obtain d ds where "d1 = d # ds" by (cases d1) auto
    then show ?thesis using f r res by auto
  qed
qed

text \<open>
  C8, as worded, fails: when \<^verbatim>\<open>bluetoothctl devices Connected\<close> fails with an error
  message and every other command succeeds with no output, discovery raises
  \<^verbatim>\<open>DeviceDiscoveryError\<close>, although not every mechanism errored and
  \<^verbatim>\<open>bluetoothctl devices\<close> succeeded with zero devices.
\<close>

theorem discover_devices_outcomes_counterexample:
  "discover_devices one_failure_run
     = Inl (DeviceDiscoveryError
             ''Bluetooth discovery failed. Ensure a working D-Bus/BlueZ session. Details: bluetoothctl devices Connected -> Too many arguments'')
   \<and> \<not> every_mechanism_errored one_failure_run
   \<and> map_option returncode (one_failure_run [''bluetoothctl'', ''devices'']) = Some 0"
  by (simp add: discover_devices_def bluetoothctl_commands_def fallback_commands_def
        one_failure_run_def every_mechanism_errored_def strip_def is_space_def splitlines_def)

theorem discover_devices_outcomes_witness:
  "(\<exists>msg. discover_devices one_failure_run = Inl (DeviceDiscoveryError msg))
   \<and> discover_devices quiet_run = Inr []
   \<and> (\<exists>d ds. discover_devices fallback_run = Inr (d # ds))"
proof -
  have y1: "\<not> list_ex (yields one_failure_run parse_device_line) bluetoothctl_commands"
    and y2: "\<not> list_ex (yields one_failure_run parse_mac_line) fallback_commands"
    and e1: "list_ex (reports_error one_failure_run) (bluetoothctl_commands @ fallback_commands)"
    by (simp_all add: yields_def reports_error_def one_failure_run_def bluetoothctl_commands_def
          fallback_commands_def splitlines_def strip_def is_space_def)
  have q1: "\<not> list_ex (yields quiet_run parse_device_line) bluetoothctl_commands"
    and q2: "\<not> list_ex (yields quiet_run parse_mac_line) fallback_commands"
    and q3: "\<not> list_ex (reports_error quiet_run) (bluetoothctl_commands @ fallback_commands)"
    by (simp_all add: yields_def reports_error_def quiet_run_def bluetoothctl_commands_def
          fallback_commands_def splitlines_def)
  have f2: "list_ex (yields fallback_run parse_mac_line) fallback_commands"
    by (simp add: yields_def fallback_run_def fallback_commands_def splitlines_def
          is_linebreak_def parse_mac_line_def is_hexdigit_def)
  from discover_devices_outcomes[OF refl refl, of one_failure_run] y1 y2 e1
  have a: "\<exists>msg. discover_devices one_failure_run = Inl (DeviceDiscoveryError msg)" by simp
  from discover_devices_outcomes[OF refl refl, of quiet_run] q1 q2 q3
  have b: "discover_devices quiet_run = Inr []" by simp
  from discover_devices_outcomes[OF refl refl, of fallback_run] f2
  have c: "\<exists>d ds. discover_devices fallback_run = Inr (d # ds)" by simp
  from a b c show ?thesis by blast
qed

section \<open>Properties of YAML loading\<close>





































end
